theory Spec2Isabelle
  imports Main "HOL-Library.Word"
begin

unbundle bit_operations_syntax

section \<open>Data model\<close>

text \<open>
  The records of \<^verbatim>\<open>v4l2_device.h\<close> and the kernel records they embed. Fixed-size
  character arrays are strings, \<^verbatim>\<open>__u32\<close> fields are 32-bit words, \<^verbatim>\<open>int\<close>
  descriptors and return codes are integers. Reserved padding is left out.
\<close>

type_synonym u32 = "32 word"
type_synonym u64 = "64 word"

record v4l2_capability =
  cap_driver :: string
  cap_card :: string
  cap_bus_info :: string
  cap_version :: u32
  cap_capabilities :: u32
  cap_device_caps :: u32

record media_device_info =
  info_driver :: string
  info_model :: string
  info_serial :: string
  info_bus_info :: string
  info_media_version :: u32
  info_hw_revision :: u32
  info_driver_version :: u32

record media_v2_interface =
  intf_id :: u32
  intf_type :: u32
  intf_flags :: u32
  devnode_major :: u32
  devnode_minor :: u32

record V4L2DeviceVideo =
  video_devname :: string
  video_fd :: int
  video_capability :: v4l2_capability

record V4L2DeviceMedia =
  media_devname :: string
  media_fd :: int
  media_info :: media_device_info

text \<open>The two fields of \<^verbatim>\<open>struct stat\<close> that the code reads.\<close>

record stat =
  st_dev :: u64
  st_rdev :: u64

text \<open>What \<^verbatim>\<open>memset(p, 0, sizeof( *p))\<close> and \<^verbatim>\<open>= { 0 }\<close> leave behind.\<close>

definition zero_capability :: v4l2_capability where
  "zero_capability =
     \<lparr>cap_driver = [], cap_card = [], cap_bus_info = [], cap_version = 0,
      cap_capabilities = 0, cap_device_caps = 0\<rparr>"

definition zero_info :: media_device_info where
  "zero_info =
     \<lparr>info_driver = [], info_model = [], info_serial = [], info_bus_info = [],
      info_media_version = 0, info_hw_revision = 0, info_driver_version = 0\<rparr>"

section \<open>Constants and macros of the system headers\<close>

definition EBADF :: int where "EBADF = 9"
definition ENOMEM :: int where "ENOMEM = 12"
definition EINVAL :: int where "EINVAL = 22"

definition PATH_MAX :: nat where "PATH_MAX = 4096"

definition MEDIA_INTF_T_V4L_VIDEO :: u32 where "MEDIA_INTF_T_V4L_VIDEO = 0x200"

definition sizeof_media_v2_interface :: nat where "sizeof_media_v2_interface = 112"

text \<open>
  Modelled from the spec: the \<^verbatim>\<open>AVERROR\<close> macro of \<^verbatim>\<open>libavutil/error.h\<close> is not
  among the sources. The header promises ``a negative value representing the error'',
  so the (positive) \<^verbatim>\<open>errno\<close> value is negated.
\<close>

definition AVERROR :: "int \<Rightarrow> int" where
  "AVERROR e = - e"

text \<open>
  \<^verbatim>\<open>major\<close> and \<^verbatim>\<open>minor\<close> of \<^verbatim>\<open>sys/sysmacros.h\<close> on a 64-bit \<^verbatim>\<open>dev_t\<close>; both
  yield an \<^verbatim>\<open>unsigned int\<close>.
\<close>

definition major :: "u64 \<Rightarrow> u32" where
  "major dev =
     ucast (drop_bit 8 (dev AND 0x00000000000fff00) OR drop_bit 32 (dev AND 0xfffff00000000000))"

definition minor :: "u64 \<Rightarrow> u32" where
  "minor dev =
     ucast ((dev AND 0x00000000000000ff) OR drop_bit 12 (dev AND 0x00000ffffff00000))"

section \<open>The operating system\<close>

text \<open>
  The device tree the two functions run against. Every system call either fails with an
  \<^verbatim>\<open>errno\<close> value (\<open>Inl\<close>) or succeeds (\<open>Inr\<close>). \<open>sys_opendir\<close> gives the names that
  successive \<^verbatim>\<open>readdir\<close> calls return, in the order the system returns them. The
  requests on a descriptor are answered by the node the descriptor was opened on.
  \<^verbatim>\<open>MEDIA_IOC_G_TOPOLOGY\<close> is asked twice: without a buffer it reports the number of
  interfaces; with a buffer it fills in the interface records and sets
  \<^verbatim>\<open>num_interfaces\<close> to their number (the kernel fails with an error rather than
  write more records than the buffer holds).
\<close>

text \<open>
  Modelled from the spec: \<^verbatim>\<open>av_mallocz\<close> and \<^verbatim>\<open>av_freep\<close> of \<^verbatim>\<open>libavutil/mem.c\<close>
  are not among the sources; the spec speaks only of an ``allocation failure while
  building the interface-record sequence'' and of a sequence that is freed before the
  query returns. The field \<open>av_mallocz_ok\<close> of the world says for each requested size in
  bytes whether the allocation succeeds; the buffer itself lives only inside
  \<^verbatim>\<open>v4l2_device_check_media\<close>. Logging through \<^verbatim>\<open>av_log\<close> has no effect on the
  results and is left out.
\<close>

record world =
  sys_opendir :: "string \<Rightarrow> int + string list"
  sys_open :: "string \<Rightarrow> int + int"
  sys_fstat :: "string \<Rightarrow> int + stat"
  vidioc_querycap :: "string \<Rightarrow> int + v4l2_capability"
  media_ioc_device_info :: "string \<Rightarrow> int + media_device_info"
  media_ioc_g_topology_count :: "string \<Rightarrow> int + u32"
  media_ioc_g_topology_fill :: "string \<Rightarrow> int + media_v2_interface list"
  av_mallocz_ok :: "nat \<Rightarrow> bool"

text \<open>
  The resources of the process: the open descriptors, most recent first, each with the
  path it was opened on, and the number of open directory streams.
\<close>

record os_state =
  fdtab :: "(int \<times> string) list"
  dirs :: nat

definition os_open :: "world \<Rightarrow> string \<Rightarrow> os_state \<Rightarrow> (int + int) \<times> os_state" where
  "os_open w path st =
     (case sys_open w path of
        Inl errno \<Rightarrow> (Inl errno, st)
      | Inr d \<Rightarrow> (Inr d, st\<lparr>fdtab := (d, path) # fdtab st\<rparr>))"

text \<open>\<^verbatim>\<open>close\<close> of a descriptor that is not open fails with \<^verbatim>\<open>EBADF\<close> and changes
  nothing; the code never reads the result of \<^verbatim>\<open>close\<close>.\<close>

fun fd_release :: "int \<Rightarrow> (int \<times> string) list \<Rightarrow> (int \<times> string) list" where
  "fd_release d [] = []"
| "fd_release d (e # es) = (if fst e = d then es else e # fd_release d es)"

definition os_close :: "int \<Rightarrow> os_state \<Rightarrow> os_state" where
  "os_close d st = st\<lparr>fdtab := fd_release d (fdtab st)\<rparr>"

definition os_ioctl :: "(string \<Rightarrow> int + 'a) \<Rightarrow> int \<Rightarrow> os_state \<Rightarrow> int + 'a" where
  "os_ioctl request d st =
     (case map_of (fdtab st) d of
        None \<Rightarrow> Inl EBADF
      | Some path \<Rightarrow> request path)"

definition os_fstat :: "world \<Rightarrow> int \<Rightarrow> os_state \<Rightarrow> int + stat" where
  "os_fstat w d st =
     (case map_of (fdtab st) d of
        None \<Rightarrow> Inl EBADF
      | Some path \<Rightarrow> sys_fstat w path)"

definition os_opendir :: "world \<Rightarrow> string \<Rightarrow> os_state \<Rightarrow> (int + string list) \<times> os_state" where
  "os_opendir w path st =
     (case sys_opendir w path of
        Inl errno \<Rightarrow> (Inl errno, st)
      | Inr entries \<Rightarrow> (Inr entries, st\<lparr>dirs := Suc (dirs st)\<rparr>))"

definition os_closedir :: "os_state \<Rightarrow> os_state" where
  "os_closedir st = st\<lparr>dirs := dirs st - 1\<rparr>"

text \<open>\<^verbatim>\<open>snprintf(buf, PATH_MAX, "/dev/%s", d_name)\<close>: at most \<^verbatim>\<open>PATH_MAX - 1\<close>
  characters are stored.\<close>

definition snprintf_dev :: "string \<Rightarrow> string" where
  "snprintf_dev d_name = take (PATH_MAX - 1) (''/dev/'' @ d_name)"

section \<open>Probing for a video device\<close>

definition v4l2_device_open_video ::
  "world \<Rightarrow> string \<Rightarrow> v4l2_capability \<Rightarrow> os_state \<Rightarrow> int \<times> v4l2_capability \<times> os_state" where
  "v4l2_device_open_video w devname cap st =
     (case os_open w devname st of
        (Inl errno, st1) \<Rightarrow> (AVERROR errno, cap, st1)
      | (Inr d, st1) \<Rightarrow>
          (case os_ioctl (vidioc_querycap w) d st1 of
             Inl errno \<Rightarrow> (AVERROR errno, zero_capability, os_close d st1)
           | Inr cap1 \<Rightarrow> (d, cap1, st1)))"

text \<open>
  The \<^verbatim>\<open>for\<close> loop over \<^verbatim>\<open>readdir\<close>, with the locals \<^verbatim>\<open>ret\<close> and \<^verbatim>\<open>tmpdev\<close>.
  \<^verbatim>\<open>strncmp(d_name, "video", 5)\<close> is zero exactly when the name starts with the five
  characters. The callback \<^verbatim>\<open>checkdev\<close> (with its \<^verbatim>\<open>opaque\<close> argument) is a
  predicate on the candidate.
\<close>

fun probe_video_loop ::
  "world \<Rightarrow> (V4L2DeviceVideo \<Rightarrow> bool) \<Rightarrow> string list \<Rightarrow> int \<Rightarrow> V4L2DeviceVideo \<Rightarrow> os_state
     \<Rightarrow> int \<times> V4L2DeviceVideo \<times> os_state" where
  "probe_video_loop w checkdev [] ret tmpdev st = (ret, tmpdev, st)"
| "probe_video_loop w checkdev (d_name # rest) ret tmpdev st =
     (if take 5 d_name \<noteq> ''video'' then probe_video_loop w checkdev rest ret tmpdev st
      else
        let tmpdev1 = tmpdev\<lparr>video_devname := snprintf_dev d_name\<rparr> in
        (case v4l2_device_open_video w (video_devname tmpdev1) (video_capability tmpdev1) st of
           (ret1, cap1, st1) \<Rightarrow>
             let tmpdev2 = tmpdev1\<lparr>video_capability := cap1\<rparr> in
             if ret1 < 0 then probe_video_loop w checkdev rest ret1 tmpdev2 st1
             else
               let tmpdev3 = tmpdev2\<lparr>video_fd := ret1\<rparr> in
               if checkdev tmpdev3 then (ret1, tmpdev3, st1)
               else probe_video_loop w checkdev rest (AVERROR EINVAL) tmpdev3
                      (os_close (video_fd tmpdev3) st1)))"

definition ff_v4l2_device_probe_video ::
  "world \<Rightarrow> V4L2DeviceVideo \<Rightarrow> (V4L2DeviceVideo \<Rightarrow> bool) \<Rightarrow> os_state
     \<Rightarrow> int \<times> V4L2DeviceVideo \<times> os_state" where
  "ff_v4l2_device_probe_video w device checkdev st =
     (case os_opendir w ''/dev'' st of
        (Inl errno, st1) \<Rightarrow> (AVERROR errno, device, st1)
      | (Inr entries, st1) \<Rightarrow>
          (case probe_video_loop w checkdev entries (AVERROR EINVAL)
                  \<lparr>video_devname = [], video_fd = 0, video_capability = zero_capability\<rparr> st1 of
             (ret, tmpdev, st2) \<Rightarrow>
               let st3 = os_closedir st2 in
               if ret < 0 then (ret, device, st3) else (0, tmpdev, st3)))"

section \<open>Retrieving the media device of a video device\<close>

definition v4l2_device_open_media ::
  "world \<Rightarrow> string \<Rightarrow> media_device_info \<Rightarrow> os_state \<Rightarrow> int \<times> media_device_info \<times> os_state" where
  "v4l2_device_open_media w devname info st =
     (case os_open w devname st of
        (Inl errno, st1) \<Rightarrow> (AVERROR errno, info, st1)
      | (Inr d, st1) \<Rightarrow>
          (case os_ioctl (media_ioc_device_info w) d st1 of
             Inl errno \<Rightarrow> (AVERROR errno, zero_info, os_close d st1)
           | Inr info1 \<Rightarrow> (d, info1, st1)))"

text \<open>The scan of the filled interface records, \<^verbatim>\<open>ret\<close> starting at
  \<^verbatim>\<open>AVERROR(EINVAL)\<close>.\<close>

fun scan_interfaces :: "media_v2_interface list \<Rightarrow> u32 \<Rightarrow> u32 \<Rightarrow> int" where
  "scan_interfaces [] video_major video_minor = AVERROR EINVAL"
| "scan_interfaces (i # rest) video_major video_minor =
     (if intf_type i \<noteq> MEDIA_INTF_T_V4L_VIDEO then scan_interfaces rest video_major video_minor
      else if devnode_major i = video_major \<and> devnode_minor i = video_minor then 0
      else scan_interfaces rest video_major video_minor)"

definition v4l2_device_check_media :: "world \<Rightarrow> int \<Rightarrow> u32 \<Rightarrow> u32 \<Rightarrow> os_state \<Rightarrow> int" where
  "v4l2_device_check_media w mfd video_major video_minor st =
     (case os_ioctl (media_ioc_g_topology_count w) mfd st of
        Inl errno \<Rightarrow> AVERROR errno
      | Inr num_interfaces \<Rightarrow>
          if num_interfaces \<le> 0 then AVERROR EINVAL
          else if \<not> av_mallocz_ok w (unat num_interfaces * sizeof_media_v2_interface)
          then AVERROR ENOMEM
          else
            (case os_ioctl (media_ioc_g_topology_fill w) mfd st of
               Inl errno \<Rightarrow> AVERROR errno
             | Inr interfaces \<Rightarrow> scan_interfaces interfaces video_major video_minor))"

text \<open>
  The \<^verbatim>\<open>for\<close> loop of \<^verbatim>\<open>ff_v4l2_device_retrieve_media\<close>, with the locals \<^verbatim>\<open>ret\<close>,
  \<^verbatim>\<open>devname\<close>, \<^verbatim>\<open>fd\<close> and \<^verbatim>\<open>info\<close>. After a failed check the code calls
  \<^verbatim>\<open>close(ret)\<close>, and so does the model.
\<close>

fun retrieve_media_loop ::
  "world \<Rightarrow> u32 \<Rightarrow> u32 \<Rightarrow> string list \<Rightarrow> int \<Rightarrow> string \<Rightarrow> int \<Rightarrow> media_device_info \<Rightarrow> os_state
     \<Rightarrow> int \<times> string \<times> int \<times> media_device_info \<times> os_state" where
  "retrieve_media_loop w vmaj vmin [] ret devname mfd info st = (ret, devname, mfd, info, st)"
| "retrieve_media_loop w vmaj vmin (d_name # rest) ret devname mfd info st =
     (if take 5 d_name \<noteq> ''media'' then retrieve_media_loop w vmaj vmin rest ret devname mfd info st
      else
        let devname1 = snprintf_dev d_name in
        (case v4l2_device_open_media w devname1 info st of
           (ret1, info1, st1) \<Rightarrow>
             if ret1 < 0 then retrieve_media_loop w vmaj vmin rest ret1 devname1 mfd info1 st1
             else
               let mfd1 = ret1;
                   ret2 = v4l2_device_check_media w mfd1 vmaj vmin st1 in
               if ret2 = 0 then (ret2, devname1, mfd1, info1, st1)
               else retrieve_media_loop w vmaj vmin rest ret2 devname1 mfd1 info1
                      (os_close ret2 st1)))"

text \<open>\<^verbatim>\<open>fd\<close> and \<^verbatim>\<open>info\<close> are uninitialised locals in the source; they are read only
  after the loop has assigned them, so the model starts them at zero.\<close>

definition ff_v4l2_device_retrieve_media ::
  "world \<Rightarrow> V4L2DeviceVideo \<Rightarrow> V4L2DeviceMedia \<Rightarrow> os_state \<Rightarrow> int \<times> V4L2DeviceMedia \<times> os_state" where
  "ff_v4l2_device_retrieve_media w video_device media_device st =
     (case os_fstat w (video_fd video_device) st of
        Inl errno \<Rightarrow> (AVERROR errno, media_device, st)
      | Inr statbuf \<Rightarrow>
          (case os_opendir w ''/dev'' st of
             (Inl errno, st1) \<Rightarrow> (AVERROR errno, media_device, st1)
           | (Inr entries, st1) \<Rightarrow>
               (case retrieve_media_loop w (major (st_rdev statbuf)) (minor (st_rdev statbuf))
                       entries (AVERROR EINVAL) [] 0 zero_info st1 of
                  (ret, devname, mfd, info, st2) \<Rightarrow>
                    let st3 = os_closedir st2 in
                    if ret < 0 then (ret, media_device, st3)
                    else (0, \<lparr>media_devname = devname, media_fd = mfd, media_info = info\<rparr>, st3))))"

section \<open>Notions used to state the properties\<close>

text \<open>
  A world follows POSIX when every failing call sets a positive \<^verbatim>\<open>errno\<close> and
  \<^verbatim>\<open>open\<close> yields a non-negative descriptor.
\<close>

definition posix_world :: "world \<Rightarrow> bool" where
  "posix_world w \<longleftrightarrow>
     (\<forall>p e. sys_opendir w p = Inl e \<longrightarrow> 0 < e) \<and>
     (\<forall>p e. sys_open w p = Inl e \<longrightarrow> 0 < e) \<and>
     (\<forall>p d. sys_open w p = Inr d \<longrightarrow> 0 \<le> d) \<and>
     (\<forall>p e. sys_fstat w p = Inl e \<longrightarrow> 0 < e) \<and>
     (\<forall>p e. vidioc_querycap w p = Inl e \<longrightarrow> 0 < e) \<and>
     (\<forall>p e. media_ioc_device_info w p = Inl e \<longrightarrow> 0 < e) \<and>
     (\<forall>p e. media_ioc_g_topology_count w p = Inl e \<longrightarrow> 0 < e) \<and>
     (\<forall>p e. media_ioc_g_topology_fill w p = Inl e \<longrightarrow> 0 < e)"

text \<open>What opening and querying the directory entry \<open>d_name\<close> gives: the \<^verbatim>\<open>errno\<close> of
  the call that failed, or the candidate handle.\<close>

definition video_open_result :: "world \<Rightarrow> string \<Rightarrow> int + V4L2DeviceVideo" where
  "video_open_result w d_name =
     (case sys_open w (snprintf_dev d_name) of
        Inl errno \<Rightarrow> Inl errno
      | Inr d \<Rightarrow>
          (case vidioc_querycap w (snprintf_dev d_name) of
             Inl errno \<Rightarrow> Inl errno
           | Inr cap \<Rightarrow>
               Inr \<lparr>video_devname = snprintf_dev d_name, video_fd = d, video_capability = cap\<rparr>))"

text \<open>The entry has the prefix, opens, answers the capability query, and the predicate
  accepts it.\<close>

definition video_accepted :: "world \<Rightarrow> (V4L2DeviceVideo \<Rightarrow> bool) \<Rightarrow> string \<Rightarrow> bool" where
  "video_accepted w checkdev d_name \<longleftrightarrow>
     take 5 d_name = ''video'' \<and>
     (case video_open_result w d_name of Inl errno \<Rightarrow> False | Inr h \<Rightarrow> checkdev h)"

definition media_open_result :: "world \<Rightarrow> string \<Rightarrow> int + V4L2DeviceMedia" where
  "media_open_result w d_name =
     (case sys_open w (snprintf_dev d_name) of
        Inl errno \<Rightarrow> Inl errno
      | Inr d \<Rightarrow>
          (case media_ioc_device_info w (snprintf_dev d_name) of
             Inl errno \<Rightarrow> Inl errno
           | Inr info \<Rightarrow>
               Inr \<lparr>media_devname = snprintf_dev d_name, media_fd = d, media_info = info\<rparr>))"

text \<open>What \<open>v4l2_device_check_media\<close> returns on a descriptor that is open on \<open>path\<close>
  (the number of the descriptor does not matter, see \<open>check_media_opened\<close>).\<close>

definition media_check_result :: "world \<Rightarrow> string \<Rightarrow> u32 \<Rightarrow> u32 \<Rightarrow> int" where
  "media_check_result w path video_major video_minor =
     v4l2_device_check_media w 0 video_major video_minor \<lparr>fdtab = [(0, path)], dirs = 0\<rparr>"

definition media_accepted :: "world \<Rightarrow> u32 \<Rightarrow> u32 \<Rightarrow> string \<Rightarrow> bool" where
  "media_accepted w video_major video_minor d_name \<longleftrightarrow>
     take 5 d_name = ''media'' \<and>
     (case media_open_result w d_name of
        Inl errno \<Rightarrow> False
      | Inr h \<Rightarrow> media_check_result w (media_devname h) video_major video_minor = 0)"

section \<open>A device tree for concrete runs\<close>

text \<open>
  A camera (\<^verbatim>\<open>video0\<close>, character device 81:0, controller \<^verbatim>\<open>media0\<close>) and a
  memory-to-memory decoder (\<^verbatim>\<open>video1\<close>, 81:1, controller \<^verbatim>\<open>media1\<close>). \<^verbatim>\<open>videoX\<close>
  and \<^verbatim>\<open>media3\<close> cannot be opened (\<^verbatim>\<open>EACCES\<close>), \<^verbatim>\<open>video2\<close> opens but does not
  answer the capability query (\<^verbatim>\<open>ENOTTY\<close>), and \<^verbatim>\<open>media2\<close> reports no interface.
  \<^verbatim>\<open>media0\<close> lists 81:1 only on a sub-device interface.
\<close>

definition uvc_capability :: v4l2_capability where
  "uvc_capability =
     \<lparr>cap_driver = ''uvcvideo'', cap_card = ''camera'', cap_bus_info = ''usb-1'',
      cap_version = 0x60100, cap_capabilities = 0x84a00001, cap_device_caps = 0x04200001\<rparr>"

definition rkvdec_capability :: v4l2_capability where
  "rkvdec_capability =
     \<lparr>cap_driver = ''rkvdec'', cap_card = ''rkvdec'', cap_bus_info = ''platform:rkvdec'',
      cap_version = 0x60100, cap_capabilities = 0x84204000, cap_device_caps = 0x04204000\<rparr>"

definition uvc_info :: media_device_info where
  "uvc_info =
     \<lparr>info_driver = ''uvcvideo'', info_model = ''camera'', info_serial = [],
      info_bus_info = ''usb-1'', info_media_version = 0x60100, info_hw_revision = 0,
      info_driver_version = 0x60100\<rparr>"

definition rkvdec_info :: media_device_info where
  "rkvdec_info =
     \<lparr>info_driver = ''rkvdec'', info_model = ''rkvdec'', info_serial = [],
      info_bus_info = ''platform:rkvdec'', info_media_version = 0x60100, info_hw_revision = 0,
      info_driver_version = 0x60100\<rparr>"

definition interface :: "u32 \<Rightarrow> u32 \<Rightarrow> u32 \<Rightarrow> u32 \<Rightarrow> media_v2_interface" where
  "interface i t maj mnr =
     \<lparr>intf_id = i, intf_type = t, intf_flags = 0, devnode_major = maj, devnode_minor = mnr\<rparr>"

definition dev_tree :: world where
  "dev_tree =
     \<lparr>sys_opendir = (\<lambda>p.
        if p = ''/dev''
        then Inr [''null'', ''video0'', ''videoX'', ''video1'', ''video2'',
                  ''media3'', ''media2'', ''media0'', ''media1'']
        else Inl 2),
      sys_open = (\<lambda>p.
        if p = ''/dev/video0'' \<or> p = ''/dev/video1'' \<or> p = ''/dev/video2'' then Inr 3
        else if p = ''/dev/media2'' then Inr 4
        else if p = ''/dev/media0'' then Inr 5
        else if p = ''/dev/media1'' then Inr 6
        else if p = ''/dev/videoX'' \<or> p = ''/dev/media3'' then Inl 13
        else Inl 2),
      sys_fstat = (\<lambda>p.
        if p = ''/dev/video0'' then Inr \<lparr>st_dev = 5, st_rdev = 0x5100\<rparr>
        else if p = ''/dev/video1'' then Inr \<lparr>st_dev = 5, st_rdev = 0x5101\<rparr>
        else Inl 5),
      vidioc_querycap = (\<lambda>p.
        if p = ''/dev/video0'' then Inr uvc_capability
        else if p = ''/dev/video1'' then Inr rkvdec_capability
        else Inl 25),
      media_ioc_device_info = (\<lambda>p.
        if p = ''/dev/media0'' then Inr uvc_info
        else if p = ''/dev/media1'' \<or> p = ''/dev/media2'' then Inr rkvdec_info
        else Inl 25),
      media_ioc_g_topology_count = (\<lambda>p.
        if p = ''/dev/media0'' then Inr 3
        else if p = ''/dev/media1'' then Inr 2
        else if p = ''/dev/media2'' then Inr 0
        else Inl 25),
      media_ioc_g_topology_fill = (\<lambda>p.
        if p = ''/dev/media0''
        then Inr [interface 1 0x200 81 0, interface 2 0x203 81 1, interface 3 0x200 81 3]
        else if p = ''/dev/media1''
        then Inr [interface 1 0x200 81 2, interface 2 0x200 81 1]
        else if p = ''/dev/media2'' then Inr []
        else Inl 25),
      av_mallocz_ok = (\<lambda>size. True)\<rparr>"

text \<open>The same tree when allocations of 300 bytes or more fail, when every allocation
  fails, with a directory that cannot be read, with a shorter directory, and with a
  directory without any video node.\<close>

definition low_memory_tree :: world where
  "low_memory_tree = dev_tree\<lparr>av_mallocz_ok := (\<lambda>size. size < 300)\<rparr>"

definition no_memory_tree :: world where
  "no_memory_tree = dev_tree\<lparr>av_mallocz_ok := (\<lambda>size. False)\<rparr>"

definition locked_tree :: world where
  "locked_tree = dev_tree\<lparr>sys_opendir := (\<lambda>p. Inl 13)\<rparr>"

definition sparse_tree :: world where
  "sparse_tree =
     dev_tree\<lparr>sys_opendir := (\<lambda>p. Inr [''videoX'', ''video1'', ''media3'', ''media1''])\<rparr>"

definition bare_tree :: world where
  "bare_tree = dev_tree\<lparr>sys_opendir := (\<lambda>p. Inr [''null'', ''media0''])\<rparr>"

text \<open>The process before probing and after it has probed \<^verbatim>\<open>video1\<close>.\<close>

definition stdio :: os_state where
  "stdio = \<lparr>fdtab = [(0, ''/dev/tty''), (1, ''/dev/tty''), (2, ''/dev/tty'')], dirs = 0\<rparr>"

definition probed :: os_state where
  "probed = stdio\<lparr>fdtab := (3, ''/dev/video1'') # fdtab stdio\<rparr>"

definition wants_m2m :: "V4L2DeviceVideo \<Rightarrow> bool" where
  "wants_m2m device \<longleftrightarrow> cap_device_caps (video_capability device) AND 0x4000 \<noteq> 0"

definition refuse_all :: "V4L2DeviceVideo \<Rightarrow> bool" where
  "refuse_all device \<longleftrightarrow> False"

definition no_video :: V4L2DeviceVideo where
  "no_video = \<lparr>video_devname = ''none'', video_fd = - 1, video_capability = zero_capability\<rparr>"

definition no_media :: V4L2DeviceMedia where
  "no_media = \<lparr>media_devname = ''none'', media_fd = - 1, media_info = zero_info\<rparr>"

definition rkvdec_video :: V4L2DeviceVideo where
  "rkvdec_video =
     \<lparr>video_devname = ''/dev/video1'', video_fd = 3, video_capability = rkvdec_capability\<rparr>"

definition rkvdec_media :: V4L2DeviceMedia where
  "rkvdec_media = \<lparr>media_devname = ''/dev/media1'', media_fd = 6, media_info = rkvdec_info\<rparr>"

section \<open>The system calls\<close>

declare probe_video_loop.simps(2) [simp del]
declare retrieve_media_loop.simps(2) [simp del]

lemma fd_release_head [simp]: "fd_release d ((d, p) # tab) = tab"
  by simp

lemma os_close_opened [simp]: "os_close d (st\<lparr>fdtab := (d, p) # fdtab st\<rparr>) = st"
  by (simp add: os_close_def)

lemma os_ioctl_opened [simp]: "os_ioctl request d (st\<lparr>fdtab := (d, p) # tab\<rparr>) = request p"
  by (simp add: os_ioctl_def)

lemma os_closedir_opened [simp]: "os_closedir (st\<lparr>dirs := Suc (dirs st)\<rparr>) = st"
  by (simp add: os_closedir_def)

lemma open_video_eq:
  "v4l2_device_open_video w path cap st =
     (case sys_open w path of
        Inl e \<Rightarrow> (AVERROR e, cap, st)
      | Inr d \<Rightarrow>
          (case vidioc_querycap w path of
             Inl e \<Rightarrow> (AVERROR e, zero_capability, st)
           | Inr c \<Rightarrow> (d, c, st\<lparr>fdtab := (d, path) # fdtab st\<rparr>)))"
  by (simp add: v4l2_device_open_video_def os_open_def split: sum.splits)

lemma open_media_eq:
  "v4l2_device_open_media w path info st =
     (case sys_open w path of
        Inl e \<Rightarrow> (AVERROR e, info, st)
      | Inr d \<Rightarrow>
          (case media_ioc_device_info w path of
             Inl e \<Rightarrow> (AVERROR e, zero_info, st)
           | Inr i \<Rightarrow> (d, i, st\<lparr>fdtab := (d, path) # fdtab st\<rparr>)))"
  by (simp add: v4l2_device_open_media_def os_open_def split: sum.splits)

lemma video_all_fields [simp]:
  "(tmp :: V4L2DeviceVideo)\<lparr>video_devname := a, video_capability := c, video_fd := b\<rparr> =
     \<lparr>video_devname = a, video_fd = b, video_capability = c\<rparr>"
  by (cases tmp) simp

lemma posix_open_fd: "posix_world w \<Longrightarrow> sys_open w p = Inr d \<Longrightarrow> \<not> d < 0"
  by (fastforce simp: posix_world_def)

lemma posix_open_errno: "posix_world w \<Longrightarrow> sys_open w p = Inl e \<Longrightarrow> AVERROR e < 0"
  by (fastforce simp: posix_world_def AVERROR_def)

lemma posix_querycap_errno: "posix_world w \<Longrightarrow> vidioc_querycap w p = Inl e \<Longrightarrow> AVERROR e < 0"
  by (fastforce simp: posix_world_def AVERROR_def)

lemma posix_device_info_errno:
  "posix_world w \<Longrightarrow> media_ioc_device_info w p = Inl e \<Longrightarrow> AVERROR e < 0"
  by (fastforce simp: posix_world_def AVERROR_def)

lemma posix_opendir_errno: "posix_world w \<Longrightarrow> sys_opendir w p = Inl e \<Longrightarrow> AVERROR e < 0"
  by (fastforce simp: posix_world_def AVERROR_def)

lemma posix_fstat_errno: "posix_world w \<Longrightarrow> sys_fstat w p = Inl e \<Longrightarrow> AVERROR e < 0"
  by (fastforce simp: posix_world_def AVERROR_def)

lemma posix_topology_count_errno:
  "posix_world w \<Longrightarrow> media_ioc_g_topology_count w p = Inl e \<Longrightarrow> AVERROR e < 0"
  by (fastforce simp: posix_world_def AVERROR_def)

lemma posix_topology_fill_errno:
  "posix_world w \<Longrightarrow> media_ioc_g_topology_fill w p = Inl e \<Longrightarrow> AVERROR e < 0"
  by (fastforce simp: posix_world_def AVERROR_def)

lemmas posix_errno =
  posix_open_fd posix_open_errno posix_querycap_errno posix_device_info_errno
  posix_opendir_errno posix_fstat_errno posix_topology_count_errno posix_topology_fill_errno

section \<open>The probing loop\<close>

lemma probe_loop_other:
  "take 5 n \<noteq> ''video'' \<Longrightarrow>
     probe_video_loop w checkdev (n # rest) ret tmp st = probe_video_loop w checkdev rest ret tmp st"
  by (simp add: probe_video_loop.simps(2))

lemma probe_loop_failed:
  assumes "posix_world w" "take 5 n = ''video''" "video_open_result w n = Inl e"
  shows "\<exists>tmp'. probe_video_loop w checkdev (n # rest) ret tmp st =
           probe_video_loop w checkdev rest (AVERROR e) tmp' st"
  using assms
  by (auto simp: probe_video_loop.simps(2) video_open_result_def open_video_eq posix_errno Let_def
           split: sum.splits)

lemma probe_loop_rejected:
  assumes "posix_world w" "take 5 n = ''video''" "video_open_result w n = Inr h" "\<not> checkdev h"
  shows "probe_video_loop w checkdev (n # rest) ret tmp st =
           probe_video_loop w checkdev rest (AVERROR EINVAL) h st"
  using assms
  by (auto simp: probe_video_loop.simps(2) video_open_result_def open_video_eq posix_errno Let_def
           split: sum.splits)

lemma probe_loop_accepted:
  assumes "posix_world w" "take 5 n = ''video''" "video_open_result w n = Inr h" "checkdev h"
  shows "probe_video_loop w checkdev (n # rest) ret tmp st =
           (video_fd h, h, st\<lparr>fdtab := (video_fd h, video_devname h) # fdtab st\<rparr>)"
  using assms
  by (auto simp: probe_video_loop.simps(2) video_open_result_def open_video_eq posix_errno Let_def
           split: sum.splits)


lemma posix_video_open_errno:
  "posix_world w \<Longrightarrow> video_open_result w n = Inl e \<Longrightarrow> AVERROR e < 0"
  by (auto simp: video_open_result_def posix_errno split: sum.splits)

lemma posix_video_open_fd:
  "posix_world w \<Longrightarrow> video_open_result w n = Inr h \<Longrightarrow> \<not> video_fd h < 0"
  by (auto simp: video_open_result_def posix_errno split: sum.splits)

lemma AVERROR_EINVAL_neg [simp]: "AVERROR EINVAL < 0"
  by (simp add: AVERROR_def EINVAL_def)

lemma AVERROR_ENOMEM_neg [simp]: "AVERROR ENOMEM < 0"
  by (simp add: AVERROR_def ENOMEM_def)

lemma probe_loop_not_accepted:
  assumes "posix_world w" "\<not> video_accepted w checkdev n" "ret < 0"
  shows "\<exists>ret' tmp'. probe_video_loop w checkdev (n # rest) ret tmp st =
           probe_video_loop w checkdev rest ret' tmp' st \<and> ret' < 0"
proof (cases "take 5 n = ''video''")
  case False
  with assms(3) show ?thesis by (auto simp: probe_loop_other)
next
  case video: True
  show ?thesis
  proof (cases "video_open_result w n")
    case (Inl e)
    from probe_loop_failed [OF assms(1) video Inl] posix_video_open_errno [OF assms(1) Inl]
    show ?thesis by blast
  next
    case (Inr h)
    with assms(2) video have "\<not> checkdev h" by (simp add: video_accepted_def)
    from probe_loop_rejected [where checkdev = checkdev, OF assms(1) video Inr this] show ?thesis
      using AVERROR_EINVAL_neg by blast
  qed
qed

lemma probe_loop_prefix:
  assumes "posix_world w"
  shows "\<forall>n\<in>set pre. \<not> video_accepted w checkdev n \<Longrightarrow> ret < 0 \<Longrightarrow>
     \<exists>ret' tmp'. probe_video_loop w checkdev (pre @ rest) ret tmp st =
        probe_video_loop w checkdev rest ret' tmp' st \<and> ret' < 0"
proof (induction pre arbitrary: ret tmp)
  case Nil
  then show ?case by auto
next
  case (Cons n pre)
  from Cons.prems have "\<not> video_accepted w checkdev n" by simp
  from probe_loop_not_accepted [OF assms this Cons.prems(2)]
  obtain r1 t1 where
    step: "probe_video_loop w checkdev (n # pre @ rest) ret tmp st =
             probe_video_loop w checkdev (pre @ rest) r1 t1 st" and r1: "r1 < 0"
    by blast
  from Cons.IH [OF _ r1] Cons.prems(1) step show ?case by simp
qed

lemma probe_loop_tail:
  "\<forall>m\<in>set post. take 5 m \<noteq> ''video'' \<Longrightarrow>
     probe_video_loop w checkdev post ret tmp st = (ret, tmp, st)"
  by (induction post) (auto simp: probe_loop_other)

lemma probe_loop_inv:
  assumes "posix_world w"
  shows "ret < 0 \<Longrightarrow> probe_video_loop w checkdev entries ret tmp st = (ret', tmp', st') \<Longrightarrow>
     (ret' < 0 \<and> st' = st) \<or>
     (ret' = video_fd tmp' \<and> \<not> ret' < 0 \<and>
      st' = st\<lparr>fdtab := (video_fd tmp', video_devname tmp') # fdtab st\<rparr> \<and>
      checkdev tmp' \<and>
      (\<exists>n\<in>set entries. take 5 n = ''video'' \<and> video_open_result w n = Inr tmp'))"
proof (induction entries arbitrary: ret tmp)
  case Nil
  then show ?case by auto
next
  case (Cons n entries)
  show ?case
  proof (cases "video_accepted w checkdev n")
    case False
    from probe_loop_not_accepted [OF assms False Cons.prems(1)]
    obtain r1 t1 where
      step: "probe_video_loop w checkdev (n # entries) ret tmp st =
               probe_video_loop w checkdev entries r1 t1 st" and r1: "r1 < 0"
      by blast
    from Cons.prems(2) step have "probe_video_loop w checkdev entries r1 t1 st = (ret', tmp', st')"
      by simp
    from Cons.IH [OF r1 this] show ?thesis by auto
  next
    case True
    then obtain h where video: "take 5 n = ''video''" and h: "video_open_result w n = Inr h"
      and ok: "checkdev h"
      by (auto simp: video_accepted_def split: sum.splits)
    from probe_loop_accepted [where checkdev = checkdev, OF assms video h ok] Cons.prems(2)
    have "ret' = video_fd h" "tmp' = h"
      "st' = st\<lparr>fdtab := (video_fd h, video_devname h) # fdtab st\<rparr>"
      by auto
    with video h ok posix_video_open_fd [OF assms h] show ?thesis by auto
  qed
qed


lemma snprintf_dev_short: "length d_name \<le> 4090 \<Longrightarrow> snprintf_dev d_name = ''/dev/'' @ d_name"
  by (simp add: snprintf_dev_def PATH_MAX_def)

lemma probe_first_accepted:
  assumes posix: "posix_world w"
    and dir: "sys_opendir w ''/dev'' = Inr (pre @ n # post)"
    and pre: "\<forall>m\<in>set pre. \<not> video_accepted w checkdev m"
    and video: "take 5 n = ''video''"
    and h: "video_open_result w n = Inr h"
    and ok: "checkdev h"
  shows "ff_v4l2_device_probe_video w device checkdev st =
           (0, h, st\<lparr>fdtab := (video_fd h, video_devname h) # fdtab st\<rparr>)"
proof -
  let ?st1 = "st\<lparr>dirs := Suc (dirs st)\<rparr>"
  let ?tmp = "\<lparr>video_devname = [], video_fd = 0, video_capability = zero_capability\<rparr>"
  from probe_loop_prefix [OF posix pre AVERROR_EINVAL_neg, of "n # post" ?tmp ?st1]
  obtain r1 t1 where
    "probe_video_loop w checkdev (pre @ n # post) (AVERROR EINVAL) ?tmp ?st1 =
       probe_video_loop w checkdev (n # post) r1 t1 ?st1"
    by blast
  with probe_loop_accepted [where checkdev = checkdev, OF posix video h ok]
  have "probe_video_loop w checkdev (pre @ n # post) (AVERROR EINVAL) ?tmp ?st1 =
          (video_fd h, h, ?st1\<lparr>fdtab := (video_fd h, video_devname h) # fdtab ?st1\<rparr>)"
    by simp
  with dir posix_video_open_fd [OF posix h] show ?thesis
    by (simp add: ff_v4l2_device_probe_video_def os_opendir_def os_closedir_def)
qed

lemma probe_none_accepted:
  assumes posix: "posix_world w"
    and dir: "sys_opendir w ''/dev'' = Inr entries"
    and none: "\<forall>m\<in>set entries. \<not> video_accepted w checkdev m"
  shows "\<exists>ret. ff_v4l2_device_probe_video w device checkdev st = (ret, device, st) \<and> ret < 0"
proof -
  let ?st1 = "st\<lparr>dirs := Suc (dirs st)\<rparr>"
  let ?tmp = "\<lparr>video_devname = [], video_fd = 0, video_capability = zero_capability\<rparr>"
  from probe_loop_prefix [OF posix none AVERROR_EINVAL_neg, of "[]" ?tmp ?st1]
  obtain r1 t1 where
    "probe_video_loop w checkdev entries (AVERROR EINVAL) ?tmp ?st1 = (r1, t1, ?st1)" "r1 < 0"
    by auto
  with dir show ?thesis
    by (simp add: ff_v4l2_device_probe_video_def os_opendir_def)
qed

lemma probe_state:
  assumes posix: "posix_world w"
    and run: "ff_v4l2_device_probe_video w device checkdev st = (ret, device', st')"
  shows "(ret < 0 \<and> st' = st) \<or>
         (ret = 0 \<and> st' = st\<lparr>fdtab := (video_fd device', video_devname device') # fdtab st\<rparr>)"
proof (cases "sys_opendir w ''/dev''")
  case (Inl e)
  with run posix_opendir_errno [OF posix Inl] show ?thesis
    by (auto simp: ff_v4l2_device_probe_video_def os_opendir_def)
next
  case (Inr entries)
  let ?st1 = "st\<lparr>dirs := Suc (dirs st)\<rparr>"
  let ?tmp = "\<lparr>video_devname = [], video_fd = 0, video_capability = zero_capability\<rparr>"
  obtain r1 t1 s1 where
    loop: "probe_video_loop w checkdev entries (AVERROR EINVAL) ?tmp ?st1 = (r1, t1, s1)"
    by (cases "probe_video_loop w checkdev entries (AVERROR EINVAL) ?tmp ?st1") auto
  from probe_loop_inv [OF posix AVERROR_EINVAL_neg loop]
  show ?thesis
  proof
    assume "r1 < 0 \<and> s1 = ?st1"
    with run Inr loop show ?thesis
      by (auto simp: ff_v4l2_device_probe_video_def os_opendir_def)
  next
    assume a: "r1 = video_fd t1 \<and> \<not> r1 < 0 \<and>
      s1 = ?st1\<lparr>fdtab := (video_fd t1, video_devname t1) # fdtab ?st1\<rparr> \<and>
      checkdev t1 \<and> (\<exists>n\<in>set entries. take 5 n = ''video'' \<and> video_open_result w n = Inr t1)"
    with run Inr loop show ?thesis
      by (auto simp: ff_v4l2_device_probe_video_def os_opendir_def os_closedir_def)
  qed
qed


section \<open>The retrieving loop\<close>

lemma check_media_opened:
  "v4l2_device_check_media w d vmaj vmin (st\<lparr>fdtab := (d, p) # tab\<rparr>) =
     media_check_result w p vmaj vmin"
  by (simp add: v4l2_device_check_media_def media_check_result_def os_ioctl_def split: sum.splits)

lemma media_check_result_eq:
  "media_check_result w p vmaj vmin =
     (case media_ioc_g_topology_count w p of
        Inl e \<Rightarrow> AVERROR e
      | Inr c \<Rightarrow>
          if c \<le> 0 then AVERROR EINVAL
          else if \<not> av_mallocz_ok w (unat c * sizeof_media_v2_interface) then AVERROR ENOMEM
          else
            (case media_ioc_g_topology_fill w p of
               Inl e \<Rightarrow> AVERROR e
             | Inr ifs \<Rightarrow> scan_interfaces ifs vmaj vmin))"
  by (simp add: v4l2_device_check_media_def media_check_result_def os_ioctl_def split: sum.splits)

lemma scan_interfaces_cases:
  "scan_interfaces ifs vmaj vmin = 0 \<or> scan_interfaces ifs vmaj vmin = AVERROR EINVAL"
  by (induction ifs) auto

lemma scan_interfaces_zero:
  "scan_interfaces ifs vmaj vmin = 0 \<longleftrightarrow>
     (\<exists>i\<in>set ifs. intf_type i = MEDIA_INTF_T_V4L_VIDEO \<and>
        devnode_major i = vmaj \<and> devnode_minor i = vmin)"
  by (induction ifs) (auto simp: AVERROR_def EINVAL_def)

lemma media_check_result_sign:
  assumes "posix_world w"
  shows "media_check_result w p vmaj vmin = 0 \<or> media_check_result w p vmaj vmin < 0"
proof -
  have "\<And>ifs. \<not> scan_interfaces ifs vmaj vmin < 0 \<Longrightarrow> scan_interfaces ifs vmaj vmin = 0"
    using scan_interfaces_cases [of _ vmaj vmin] AVERROR_EINVAL_neg by metis
  with assms show ?thesis
    by (auto simp: media_check_result_eq posix_errno split: sum.splits)
qed

lemma media_all_fields [simp]:
  "\<lparr>media_devname = media_devname h, media_fd = media_fd h, media_info = media_info h\<rparr> = h"
  by (cases h) simp

lemma retrieve_loop_other:
  "take 5 n \<noteq> ''media'' \<Longrightarrow>
     retrieve_media_loop w vmaj vmin (n # rest) ret dn d info st =
       retrieve_media_loop w vmaj vmin rest ret dn d info st"
  by (simp add: retrieve_media_loop.simps(2))

lemma retrieve_loop_failed:
  assumes "posix_world w" "take 5 n = ''media''" "media_open_result w n = Inl e"
  shows "\<exists>info'. retrieve_media_loop w vmaj vmin (n # rest) ret dn d info st =
           retrieve_media_loop w vmaj vmin rest (AVERROR e) (snprintf_dev n) d info' st"
  using assms
  by (auto simp: retrieve_media_loop.simps(2) media_open_result_def open_media_eq posix_errno
           split: sum.splits)

lemma retrieve_loop_rejected:
  assumes "posix_world w" "take 5 n = ''media''" "media_open_result w n = Inr h"
    "media_check_result w (media_devname h) vmaj vmin \<noteq> 0"
  shows "retrieve_media_loop w vmaj vmin (n # rest) ret dn d info st =
           retrieve_media_loop w vmaj vmin rest (media_check_result w (media_devname h) vmaj vmin)
             (media_devname h) (media_fd h) (media_info h)
             (os_close (media_check_result w (media_devname h) vmaj vmin)
                (st\<lparr>fdtab := (media_fd h, media_devname h) # fdtab st\<rparr>))"
  using assms
  by (auto simp: retrieve_media_loop.simps(2) media_open_result_def open_media_eq posix_errno
           check_media_opened Let_def split: sum.splits)

lemma retrieve_loop_accepted:
  assumes "posix_world w" "take 5 n = ''media''" "media_open_result w n = Inr h"
    "media_check_result w (media_devname h) vmaj vmin = 0"
  shows "retrieve_media_loop w vmaj vmin (n # rest) ret dn d info st =
           (0, media_devname h, media_fd h, media_info h,
            st\<lparr>fdtab := (media_fd h, media_devname h) # fdtab st\<rparr>)"
  using assms
  by (auto simp: retrieve_media_loop.simps(2) media_open_result_def open_media_eq posix_errno
           check_media_opened Let_def split: sum.splits)


lemma posix_media_open_errno:
  "posix_world w \<Longrightarrow> media_open_result w n = Inl e \<Longrightarrow> AVERROR e < 0"
  by (auto simp: media_open_result_def posix_errno split: sum.splits)

lemma retrieve_loop_not_accepted:
  assumes "posix_world w" "\<not> media_accepted w vmaj vmin n" "ret < 0"
  shows "\<exists>ret' dn' d' info' st'.
           retrieve_media_loop w vmaj vmin (n # rest) ret dn d info st =
             retrieve_media_loop w vmaj vmin rest ret' dn' d' info' st' \<and> ret' < 0"
proof (cases "take 5 n = ''media''")
  case False
  from assms(3) show ?thesis
    unfolding retrieve_loop_other [OF False] by blast
next
  case media: True
  show ?thesis
  proof (cases "media_open_result w n")
    case (Inl e)
    from retrieve_loop_failed [OF assms(1) media Inl] posix_media_open_errno [OF assms(1) Inl]
    show ?thesis by blast
  next
    case (Inr h)
    with assms(2) media have no: "media_check_result w (media_devname h) vmaj vmin \<noteq> 0"
      by (simp add: media_accepted_def)
    with media_check_result_sign [OF assms(1)]
    have "media_check_result w (media_devname h) vmaj vmin < 0" by blast
    with retrieve_loop_rejected [OF assms(1) media Inr no] show ?thesis by blast
  qed
qed

lemma retrieve_loop_prefix:
  assumes "posix_world w"
  shows "\<forall>n\<in>set pre. \<not> media_accepted w vmaj vmin n \<Longrightarrow> ret < 0 \<Longrightarrow>
     \<exists>ret' dn' d' info' st'.
        retrieve_media_loop w vmaj vmin (pre @ rest) ret dn d info st =
          retrieve_media_loop w vmaj vmin rest ret' dn' d' info' st' \<and> ret' < 0"
proof (induction pre arbitrary: ret dn d info st)
  case Nil
  then show ?case unfolding append_Nil by blast
next
  case (Cons n pre)
  from Cons.prems have "\<not> media_accepted w vmaj vmin n" by simp
  from retrieve_loop_not_accepted [OF assms this Cons.prems(2)]
  obtain r1 dn1 d1 i1 s1 where
    step: "retrieve_media_loop w vmaj vmin (n # pre @ rest) ret dn d info st =
             retrieve_media_loop w vmaj vmin (pre @ rest) r1 dn1 d1 i1 s1" and r1: "r1 < 0"
    by blast
  from Cons.IH [OF _ r1] Cons.prems(1) step show ?case by simp
qed

lemma retrieve_loop_tail:
  "\<forall>m\<in>set post. take 5 m \<noteq> ''media'' \<Longrightarrow>
     retrieve_media_loop w vmaj vmin post ret dn d info st = (ret, dn, d, info, st)"
  by (induction post) (auto simp: retrieve_loop_other)

lemma retrieve_loop_inv:
  assumes "posix_world w"
  shows "ret < 0 \<Longrightarrow>
     retrieve_media_loop w vmaj vmin entries ret dn d info st = (ret', dn', d', info', st') \<Longrightarrow>
     ret' < 0 \<or>
     (ret' = 0 \<and>
      (\<exists>n\<in>set entries. media_accepted w vmaj vmin n \<and>
         media_open_result w n =
           Inr \<lparr>media_devname = dn', media_fd = d', media_info = info'\<rparr>))"
proof (induction entries arbitrary: ret dn d info st)
  case Nil
  then show ?case by auto
next
  case (Cons n entries)
  show ?case
  proof (cases "media_accepted w vmaj vmin n")
    case False
    from retrieve_loop_not_accepted [OF assms False Cons.prems(1)]
    obtain r1 dn1 d1 i1 s1 where
      step: "retrieve_media_loop w vmaj vmin (n # entries) ret dn d info st =
               retrieve_media_loop w vmaj vmin entries r1 dn1 d1 i1 s1" and r1: "r1 < 0"
      by blast
    from Cons.prems(2) step
    have "retrieve_media_loop w vmaj vmin entries r1 dn1 d1 i1 s1 = (ret', dn', d', info', st')"
      by simp
    from Cons.IH [OF r1 this] show ?thesis by auto
  next
    case True
    then obtain h where media: "take 5 n = ''media''" and h: "media_open_result w n = Inr h"
      and ok: "media_check_result w (media_devname h) vmaj vmin = 0"
      by (auto simp: media_accepted_def split: sum.splits)
    from retrieve_loop_accepted [OF assms media h ok] Cons.prems(2)
    have "ret' = 0" "dn' = media_devname h" "d' = media_fd h" "info' = media_info h"
      by auto
    with True h show ?thesis by auto
  qed
qed

lemma media_check_result_zero:
  assumes "posix_world w" "media_check_result w p vmaj vmin = 0"
  shows "\<exists>c ifs. media_ioc_g_topology_count w p = Inr c \<and> 0 < c \<and>
           av_mallocz_ok w (unat c * sizeof_media_v2_interface) \<and>
           media_ioc_g_topology_fill w p = Inr ifs \<and>
           (\<exists>i\<in>set ifs. intf_type i = MEDIA_INTF_T_V4L_VIDEO \<and>
              devnode_major i = vmaj \<and> devnode_minor i = vmin)"
proof (cases "media_ioc_g_topology_count w p")
  case (Inl e)
  with assms posix_topology_count_errno [OF assms(1) Inl] show ?thesis
    by (simp add: media_check_result_eq)
next
  case count: (Inr c)
  show ?thesis
  proof (cases "media_ioc_g_topology_fill w p")
    case (Inl e)
    with assms count posix_topology_fill_errno [OF assms(1) Inl] show ?thesis
      by (auto simp: media_check_result_eq AVERROR_def EINVAL_def ENOMEM_def split: if_splits)
  next
    case (Inr ifs)
    with assms count show ?thesis
      by (auto simp: media_check_result_eq AVERROR_def EINVAL_def ENOMEM_def scan_interfaces_zero
               word_neq_0_conv split: if_splits)
  qed
qed

lemma retrieve_success:
  assumes posix: "posix_world w"
    and run: "ff_v4l2_device_retrieve_media w video_device media_device st = (0, media_device', st')"
  shows "\<exists>statbuf entries. os_fstat w (video_fd video_device) st = Inr statbuf \<and>
           sys_opendir w ''/dev'' = Inr entries \<and>
           (\<exists>n\<in>set entries.
              media_accepted w (major (st_rdev statbuf)) (minor (st_rdev statbuf)) n \<and>
              media_open_result w n = Inr media_device')"
proof (cases "os_fstat w (video_fd video_device) st")
  case (Inl e)
  have "AVERROR e < 0"
  proof (cases "map_of (fdtab st) (video_fd video_device)")
    case None
    with Inl show ?thesis by (auto simp: os_fstat_def AVERROR_def EBADF_def)
  next
    case (Some p)
    with Inl posix show ?thesis by (auto simp: os_fstat_def posix_errno)
  qed
  with run Inl show ?thesis by (simp add: ff_v4l2_device_retrieve_media_def)
next
  case stat: (Inr statbuf)
  show ?thesis
  proof (cases "sys_opendir w ''/dev''")
    case (Inl e)
    with run stat posix_opendir_errno [OF posix Inl] show ?thesis
      by (simp add: ff_v4l2_device_retrieve_media_def os_opendir_def)
  next
    case (Inr entries)
    let ?st1 = "st\<lparr>dirs := Suc (dirs st)\<rparr>"
    let ?maj = "major (st_rdev statbuf)" and ?min = "minor (st_rdev statbuf)"
    obtain r1 dn1 d1 i1 s1 where
      loop: "retrieve_media_loop w ?maj ?min entries (AVERROR EINVAL) [] 0 zero_info ?st1 =
               (r1, dn1, d1, i1, s1)"
      by (metis prod_cases5)
    from run stat Inr loop have res: "\<not> r1 < 0"
      "media_device' = \<lparr>media_devname = dn1, media_fd = d1, media_info = i1\<rparr>"
      by (auto simp: ff_v4l2_device_retrieve_media_def os_opendir_def Let_def split: if_splits)
    from retrieve_loop_inv [OF posix AVERROR_EINVAL_neg loop] res stat Inr
    show ?thesis by auto
  qed
qed

lemma posix_os_fstat_errno:
  assumes "posix_world w" "os_fstat w d st = Inl e"
  shows "AVERROR e < 0"
proof (cases "map_of (fdtab st) d")
  case None
  with assms(2) show ?thesis by (auto simp: os_fstat_def AVERROR_def EBADF_def)
next
  case (Some p)
  with assms show ?thesis by (auto simp: os_fstat_def posix_errno)
qed

lemma retrieve_first_accepted:
  assumes posix: "posix_world w"
    and stat: "os_fstat w (video_fd video_device) st = Inr statbuf"
    and dir: "sys_opendir w ''/dev'' = Inr (pre @ n # post)"
    and pre: "\<forall>m\<in>set pre. \<not> media_accepted w (major (st_rdev statbuf)) (minor (st_rdev statbuf)) m"
    and media: "take 5 n = ''media''"
    and h: "media_open_result w n = Inr h"
    and ok: "media_check_result w (media_devname h) (major (st_rdev statbuf))
               (minor (st_rdev statbuf)) = 0"
  shows "\<exists>st'. ff_v4l2_device_retrieve_media w video_device media_device st = (0, h, st')"
proof -
  let ?st1 = "st\<lparr>dirs := Suc (dirs st)\<rparr>"
  let ?maj = "major (st_rdev statbuf)" and ?min = "minor (st_rdev statbuf)"
  from retrieve_loop_prefix [OF posix pre AVERROR_EINVAL_neg, of "n # post" "[]" 0 zero_info ?st1]
  obtain r1 dn1 d1 i1 s1 where
    "retrieve_media_loop w ?maj ?min (pre @ n # post) (AVERROR EINVAL) [] 0 zero_info ?st1 =
       retrieve_media_loop w ?maj ?min (n # post) r1 dn1 d1 i1 s1"
    by blast
  with retrieve_loop_accepted [OF posix media h ok]
  have "retrieve_media_loop w ?maj ?min (pre @ n # post) (AVERROR EINVAL) [] 0 zero_info ?st1 =
          (0, media_devname h, media_fd h, media_info h,
           s1\<lparr>fdtab := (media_fd h, media_devname h) # fdtab s1\<rparr>)"
    by simp
  with stat dir show ?thesis
    by (simp add: ff_v4l2_device_retrieve_media_def os_opendir_def)
qed

lemma retrieve_last_rejected:
  assumes posix: "posix_world w"
    and stat: "os_fstat w (video_fd video_device) st = Inr statbuf"
    and dir: "sys_opendir w ''/dev'' = Inr (pre @ n # post)"
    and pre: "\<forall>m\<in>set pre. \<not> media_accepted w (major (st_rdev statbuf)) (minor (st_rdev statbuf)) m"
    and media: "take 5 n = ''media''"
    and h: "media_open_result w n = Inr h"
    and no: "media_check_result w (media_devname h) (major (st_rdev statbuf))
               (minor (st_rdev statbuf)) = r" "r \<noteq> 0"
    and post: "\<forall>m\<in>set post. take 5 m \<noteq> ''media''"
  shows "\<exists>st'. ff_v4l2_device_retrieve_media w video_device media_device st =
           (r, media_device, st')"
proof -
  let ?st1 = "st\<lparr>dirs := Suc (dirs st)\<rparr>"
  let ?maj = "major (st_rdev statbuf)" and ?min = "minor (st_rdev statbuf)"
  from media_check_result_sign [OF posix, of "media_devname h" ?maj ?min] no
  have neg: "r < 0" by auto
  from retrieve_loop_prefix [OF posix pre AVERROR_EINVAL_neg, of "n # post" "[]" 0 zero_info ?st1]
  obtain r1 dn1 d1 i1 s1 where
    "retrieve_media_loop w ?maj ?min (pre @ n # post) (AVERROR EINVAL) [] 0 zero_info ?st1 =
       retrieve_media_loop w ?maj ?min (n # post) r1 dn1 d1 i1 s1"
    by blast
  moreover from no have "media_check_result w (media_devname h) ?maj ?min \<noteq> 0" by simp
  note retrieve_loop_rejected [OF posix media h this, of post r1 dn1 d1 i1 s1]
  ultimately
  have "\<exists>s2. retrieve_media_loop w ?maj ?min (pre @ n # post) (AVERROR EINVAL) [] 0 zero_info ?st1 =
          (r, media_devname h, media_fd h, media_info h, s2)"
    using no(1) by (simp add: retrieve_loop_tail [OF post])
  with stat dir neg show ?thesis
    by (auto simp: ff_v4l2_device_retrieve_media_def os_opendir_def)
qed

section \<open>Runs on the device tree\<close>

lemmas tree_defs =
  dev_tree_def low_memory_tree_def no_memory_tree_def locked_tree_def sparse_tree_def
  bare_tree_def stdio_def probed_def wants_m2m_def refuse_all_def no_video_def no_media_def
  rkvdec_video_def rkvdec_media_def uvc_capability_def rkvdec_capability_def uvc_info_def
  rkvdec_info_def interface_def

lemmas run_defs =
  ff_v4l2_device_probe_video_def ff_v4l2_device_retrieve_media_def os_opendir_def
  os_closedir_def os_close_def os_fstat_def probe_video_loop.simps(2) retrieve_media_loop.simps(2)
  open_video_eq open_media_eq check_media_opened media_check_result_eq
  video_open_result_def media_open_result_def video_accepted_def media_accepted_def
  snprintf_dev_short major_def minor_def AVERROR_def EINVAL_def ENOMEM_def EBADF_def
  MEDIA_INTF_T_V4L_VIDEO_def sizeof_media_v2_interface_def zero_capability_def zero_info_def
  Let_def

lemma dev_tree_posix: "posix_world dev_tree"
  by (simp add: posix_world_def dev_tree_def)

lemma low_memory_tree_posix: "posix_world low_memory_tree"
  by (simp add: posix_world_def dev_tree_def low_memory_tree_def)

lemma no_memory_tree_posix: "posix_world no_memory_tree"
  by (simp add: posix_world_def dev_tree_def no_memory_tree_def)

lemma locked_tree_posix: "posix_world locked_tree"
  by (simp add: posix_world_def dev_tree_def locked_tree_def)

lemma sparse_tree_posix: "posix_world sparse_tree"
  by (simp add: posix_world_def dev_tree_def sparse_tree_def)

lemma bare_tree_posix: "posix_world bare_tree"
  by (simp add: posix_world_def dev_tree_def bare_tree_def)

lemma dev_tree_probe_m2m:
  "ff_v4l2_device_probe_video dev_tree no_video wants_m2m stdio = (0, rkvdec_video, probed)"
  by (simp add: run_defs tree_defs)

lemma dev_tree_probe_refused:
  "ff_v4l2_device_probe_video dev_tree no_video refuse_all stdio = (- 25, no_video, stdio)"
  by (simp add: run_defs tree_defs)

lemma dev_tree_retrieve:
  "ff_v4l2_device_retrieve_media dev_tree rkvdec_video no_media probed =
     (0, rkvdec_media,
      \<lparr>fdtab = [(6, ''/dev/media1''), (5, ''/dev/media0''), (4, ''/dev/media2''),
                (3, ''/dev/video1''), (0, ''/dev/tty''), (1, ''/dev/tty''), (2, ''/dev/tty'')],
       dirs = 0\<rparr>)"
  by (simp add: run_defs tree_defs)

lemma low_memory_tree_retrieve:
  "ff_v4l2_device_retrieve_media low_memory_tree rkvdec_video no_media probed =
     (0, rkvdec_media,
      \<lparr>fdtab = [(6, ''/dev/media1''), (5, ''/dev/media0''), (4, ''/dev/media2''),
                (3, ''/dev/video1''), (0, ''/dev/tty''), (1, ''/dev/tty''), (2, ''/dev/tty'')],
       dirs = 0\<rparr>)"
  by (simp add: run_defs tree_defs)

section \<open>Probing: the first accepted candidate\<close>

text \<open>
  C2. Whatever the directory lists, \<open>ff_v4l2_device_probe_video\<close> returns 0 with the
  first entry, in the order of the listing, that has the \<^verbatim>\<open>video\<close> prefix, opens,
  answers the capability query and is accepted by the predicate. The handle written to
  the caller carries that entry's path, its descriptor and its capability record. The
  entries after it play no role: the result is the same for every \<open>post\<close>, and the only
  descriptor added to the table is the accepted one.
\<close>

theorem probe_video_returns_first_accepted:
  assumes "posix_world w"
    and "sys_opendir w ''/dev'' = Inr (pre @ n # post)"
    and "\<forall>m\<in>set pre. \<not> video_accepted w checkdev m"
    and "take 5 n = ''video''"
    and "sys_open w (snprintf_dev n) = Inr d"
    and "vidioc_querycap w (snprintf_dev n) = Inr cap"
    and "checkdev \<lparr>video_devname = snprintf_dev n, video_fd = d, video_capability = cap\<rparr>"
  shows "ff_v4l2_device_probe_video w device checkdev st =
           (0, \<lparr>video_devname = snprintf_dev n, video_fd = d, video_capability = cap\<rparr>,
            st\<lparr>fdtab := (d, snprintf_dev n) # fdtab st\<rparr>)"
proof -
  let ?h = "\<lparr>video_devname = snprintf_dev n, video_fd = d, video_capability = cap\<rparr>"
  from assms(5,6) have "video_open_result w n = Inr ?h"
    by (simp add: video_open_result_def)
  from probe_first_accepted [where checkdev = checkdev, OF assms(1-4) this assms(7)]
  show ?thesis by simp
qed

theorem probe_video_returns_first_accepted_witness:
  "ff_v4l2_device_probe_video dev_tree no_video wants_m2m stdio =
     (0, \<lparr>video_devname = ''/dev/video1'', video_fd = 3, video_capability = rkvdec_capability\<rparr>,
      \<lparr>fdtab = [(3, ''/dev/video1''), (0, ''/dev/tty''), (1, ''/dev/tty''), (2, ''/dev/tty'')],
       dirs = 0\<rparr>)"
proof -
  have dir: "sys_opendir dev_tree ''/dev'' =
      Inr ([''null'', ''video0'', ''videoX''] @ ''video1'' #
           [''video2'', ''media3'', ''media2'', ''media0'', ''media1''])"
    by (simp add: dev_tree_def)
  have pre: "\<forall>m\<in>set [''null'', ''video0'', ''videoX'']. \<not> video_accepted dev_tree wants_m2m m"
    by (simp add: run_defs tree_defs)
  have video: "take 5 ''video1'' = ''video''" by simp
  have opened: "sys_open dev_tree (snprintf_dev ''video1'') = Inr 3"
    by (simp add: run_defs tree_defs)
  have cap: "vidioc_querycap dev_tree (snprintf_dev ''video1'') = Inr rkvdec_capability"
    by (simp add: run_defs dev_tree_def)
  have ok: "wants_m2m \<lparr>video_devname = snprintf_dev ''video1'', video_fd = 3,
      video_capability = rkvdec_capability\<rparr>"
    by (simp add: wants_m2m_def rkvdec_capability_def)
  from probe_video_returns_first_accepted [where checkdev = wants_m2m,
      OF dev_tree_posix dir pre video opened cap ok, of no_video stdio]
  show ?thesis by (simp add: snprintf_dev_short stdio_def)
qed

section \<open>Probing: no candidate is accepted\<close>

lemma probe_last_candidate:
  assumes posix: "posix_world w"
    and dir: "sys_opendir w ''/dev'' = Inr (pre @ n # post)"
    and pre: "\<forall>m\<in>set pre. \<not> video_accepted w checkdev m"
    and video: "take 5 n = ''video''"
    and no: "\<not> video_accepted w checkdev n"
    and post: "\<forall>m\<in>set post. take 5 m \<noteq> ''video''"
  shows "ff_v4l2_device_probe_video w device checkdev st =
           ((case video_open_result w n of Inl errno \<Rightarrow> AVERROR errno | Inr h \<Rightarrow> AVERROR EINVAL),
            device, st)"
proof -
  let ?st1 = "st\<lparr>dirs := Suc (dirs st)\<rparr>"
  let ?tmp = "\<lparr>video_devname = [], video_fd = 0, video_capability = zero_capability\<rparr>"
  from probe_loop_prefix [OF posix pre AVERROR_EINVAL_neg, of "n # post" ?tmp ?st1]
  obtain r1 t1 where prefix:
    "probe_video_loop w checkdev (pre @ n # post) (AVERROR EINVAL) ?tmp ?st1 =
       probe_video_loop w checkdev (n # post) r1 t1 ?st1"
    by blast
  show ?thesis
  proof (cases "video_open_result w n")
    case (Inl e)
    from probe_loop_failed [OF posix video Inl, of checkdev post r1 t1 ?st1]
    obtain t2 where
      "probe_video_loop w checkdev (n # post) r1 t1 ?st1 =
         probe_video_loop w checkdev post (AVERROR e) t2 ?st1"
      by blast
    with prefix probe_loop_tail [OF post]
    have "probe_video_loop w checkdev (pre @ n # post) (AVERROR EINVAL) ?tmp ?st1 =
            (AVERROR e, t2, ?st1)"
      by simp
    with dir Inl posix_video_open_errno [OF posix Inl] show ?thesis
      by (simp add: ff_v4l2_device_probe_video_def os_opendir_def)
  next
    case (Inr h)
    with no video have "\<not> checkdev h" by (simp add: video_accepted_def)
    from probe_loop_rejected [where checkdev = checkdev, OF posix video Inr this,
        of post r1 t1 ?st1]
      prefix probe_loop_tail [OF post]
    have "probe_video_loop w checkdev (pre @ n # post) (AVERROR EINVAL) ?tmp ?st1 =
            (AVERROR EINVAL, h, ?st1)"
      by simp
    with dir Inr show ?thesis
      by (simp add: ff_v4l2_device_probe_video_def os_opendir_def)
  qed
qed

lemma probe_no_candidate:
  assumes dir: "sys_opendir w ''/dev'' = Inr entries"
    and none: "\<forall>m\<in>set entries. take 5 m \<noteq> ''video''"
  shows "ff_v4l2_device_probe_video w device checkdev st = (AVERROR EINVAL, device, st)"
  using dir by (simp add: ff_v4l2_device_probe_video_def os_opendir_def probe_loop_tail [OF none])

text \<open>
  C5. The property says that the call fails with \<^verbatim>\<open>NoSuitableDevice\<close> whenever the
  predicate rejects every candidate it sees; for the code that kind is the value
  \<^verbatim>\<open>AVERROR(EINVAL)\<close>, which \<^verbatim>\<open>ret\<close> starts at and is reset to after a rejection. On
  the device tree with a predicate that refuses everything, the last entry with the
  \<^verbatim>\<open>video\<close> prefix is \<^verbatim>\<open>video2\<close>, whose capability query fails with \<^verbatim>\<open>ENOTTY\<close> (25);
  the call returns \<^verbatim>\<open>AVERROR(ENOTTY)\<close>, not \<^verbatim>\<open>AVERROR(EINVAL)\<close>.
\<close>

theorem probe_video_reports_last_errno:
  "ff_v4l2_device_probe_video dev_tree no_video refuse_all stdio = (AVERROR 25, no_video, stdio) \<and>
   AVERROR 25 \<noteq> AVERROR EINVAL \<and>
   \<not> refuse_all \<lparr>video_devname = ''/dev/video0'', video_fd = 3, video_capability = uvc_capability\<rparr> \<and>
   \<not> refuse_all rkvdec_video"
  by (simp add: dev_tree_probe_refused AVERROR_def EINVAL_def refuse_all_def)

text \<open>
  C5, as the code has it. When no entry of the directory is accepted (each one lacks the
  prefix, fails to open or to answer the query, or is rejected by the predicate), the
  call returns a negative code, the output structure and the descriptor table are as
  before, and the directory stream is closed. The code is \<^verbatim>\<open>AVERROR(EINVAL)\<close> when no
  entry has the prefix and when the last entry with the prefix was opened, queried and
  rejected; when the open or the query of that last entry failed, the code is the negated
  \<^verbatim>\<open>errno\<close> of that failure.
\<close>

theorem probe_video_without_acceptance:
  assumes "posix_world w"
    and "sys_opendir w ''/dev'' = Inr entries"
    and "\<forall>m\<in>set entries. \<not> video_accepted w checkdev m"
  shows "\<exists>ret. ff_v4l2_device_probe_video w device checkdev st = (ret, device, st) \<and> ret < 0 \<and>
           ((\<forall>m\<in>set entries. take 5 m \<noteq> ''video'') \<longrightarrow> ret = AVERROR EINVAL) \<and>
           (\<forall>pre n post.
              entries = pre @ n # post \<and> take 5 n = ''video'' \<and>
              (\<forall>m\<in>set post. take 5 m \<noteq> ''video'') \<longrightarrow>
              ret = (case video_open_result w n of
                       Inl errno \<Rightarrow> AVERROR errno
                     | Inr h \<Rightarrow> AVERROR EINVAL))"
proof -
  from probe_none_accepted [OF assms, of device st]
  obtain ret where
    run: "ff_v4l2_device_probe_video w device checkdev st = (ret, device, st)" and neg: "ret < 0"
    by blast
  have none: "ret = AVERROR EINVAL" if "\<forall>m\<in>set entries. take 5 m \<noteq> ''video''"
    using probe_no_candidate [OF assms(2) that, of device checkdev st] run by simp
  have last: "ret = (case video_open_result w n of Inl errno \<Rightarrow> AVERROR errno | Inr h \<Rightarrow> AVERROR EINVAL)"
    if "entries = pre @ n # post" "take 5 n = ''video''" "\<forall>m\<in>set post. take 5 m \<noteq> ''video''"
    for pre n post
  proof -
    from that(1) assms(2) have dir: "sys_opendir w ''/dev'' = Inr (pre @ n # post)" by simp
    from that(1) assms(3) have pre: "\<forall>m\<in>set pre. \<not> video_accepted w checkdev m"
      and no: "\<not> video_accepted w checkdev n"
      by simp_all
    from probe_last_candidate [OF assms(1) dir pre that(2) no that(3), of device st] run
    show ?thesis by simp
  qed
  from run neg none last show ?thesis by blast
qed

theorem probe_video_without_acceptance_witness:
  "fst (ff_v4l2_device_probe_video dev_tree no_video refuse_all stdio) = AVERROR 25 \<and>
   video_open_result dev_tree ''video2'' = Inl 25 \<and>
   fst (ff_v4l2_device_probe_video bare_tree no_video wants_m2m stdio) = AVERROR EINVAL"
proof -
  have dir: "sys_opendir dev_tree ''/dev'' =
      Inr [''null'', ''video0'', ''videoX'', ''video1'', ''video2'',
           ''media3'', ''media2'', ''media0'', ''media1'']"
    by (simp add: dev_tree_def)
  have none: "\<forall>m\<in>set [''null'', ''video0'', ''videoX'', ''video1'', ''video2'',
      ''media3'', ''media2'', ''media0'', ''media1'']. \<not> video_accepted dev_tree refuse_all m"
    by (simp add: video_accepted_def refuse_all_def split: sum.splits)
  have last: "video_open_result dev_tree ''video2'' = Inl 25"
    by (simp add: run_defs dev_tree_def)
  have bare: "sys_opendir bare_tree ''/dev'' = Inr [''null'', ''media0'']"
    by (simp add: tree_defs)
  have bare_none: "\<forall>m\<in>set [''null'', ''media0'']. \<not> video_accepted bare_tree wants_m2m m"
    by (simp add: video_accepted_def)
  from probe_video_without_acceptance [OF dev_tree_posix dir none, of no_video stdio]
  obtain r1 where
    run1: "ff_v4l2_device_probe_video dev_tree no_video refuse_all stdio = (r1, no_video, stdio)"
    and spec1: "\<forall>pre n post.
      [''null'', ''video0'', ''videoX'', ''video1'', ''video2'',
       ''media3'', ''media2'', ''media0'', ''media1''] = pre @ n # post \<and>
      take 5 n = ''video'' \<and> (\<forall>m\<in>set post. take 5 m \<noteq> ''video'') \<longrightarrow>
      r1 = (case video_open_result dev_tree n of Inl errno \<Rightarrow> AVERROR errno
            | Inr h \<Rightarrow> AVERROR EINVAL)"
    by blast
  from spec1 [rule_format, of "[''null'', ''video0'', ''videoX'', ''video1'']" "''video2''"
      "[''media3'', ''media2'', ''media0'', ''media1'']"] last
  have "r1 = AVERROR 25" by simp
  moreover
  from probe_video_without_acceptance [OF bare_tree_posix bare bare_none, of no_video stdio]
  obtain r2 where
    "ff_v4l2_device_probe_video bare_tree no_video wants_m2m stdio = (r2, no_video, stdio)"
    "r2 = AVERROR EINVAL"
    by auto
  ultimately show ?thesis using run1 last by simp
qed

section \<open>Probing: the descriptors left open\<close>

text \<open>
  C7. After \<open>ff_v4l2_device_probe_video\<close> has returned, the descriptor table is the one
  the call started with when the call failed, and that table with one more descriptor,
  the one in the returned handle, when it succeeded; the directory stream is closed in
  both cases. A candidate that the predicate rejects is closed at once: \<^verbatim>\<open>close\<close> on its
  descriptor gives back the table from before the candidate was opened, and the loop goes
  on in that state. A candidate whose capability query fails is closed by
  \<open>v4l2_device_open_video\<close> itself, which returns in the state it was called in.
\<close>

theorem probe_video_keeps_only_accepted_descriptor:
  assumes "posix_world w"
  shows "(ff_v4l2_device_probe_video w device checkdev st0 = (r, device', st') \<longrightarrow>
            (r < 0 \<and> st' = st0) \<or>
            (r = 0 \<and>
             st' = st0\<lparr>fdtab := (video_fd device', video_devname device') # fdtab st0\<rparr>)) \<and>
         (take 5 n = ''video'' \<and> video_open_result w n = Inr h \<and> \<not> checkdev h \<longrightarrow>
            os_close (video_fd h) (st\<lparr>fdtab := (video_fd h, video_devname h) # fdtab st\<rparr>) = st \<and>
            probe_video_loop w checkdev (n # rest) ret tmp st =
              probe_video_loop w checkdev rest (AVERROR EINVAL) h st) \<and>
         (sys_open w path = Inr d \<and> vidioc_querycap w path = Inl e \<longrightarrow>
            v4l2_device_open_video w path cap st = (AVERROR e, zero_capability, st))"
proof (intro conjI impI)
  assume "ff_v4l2_device_probe_video w device checkdev st0 = (r, device', st')"
  from probe_state [OF assms this]
  show "(r < 0 \<and> st' = st0) \<or>
        (r = 0 \<and> st' = st0\<lparr>fdtab := (video_fd device', video_devname device') # fdtab st0\<rparr>)" .
next
  show "os_close (video_fd h) (st\<lparr>fdtab := (video_fd h, video_devname h) # fdtab st\<rparr>) = st"
    by simp
next
  assume a: "take 5 n = ''video'' \<and> video_open_result w n = Inr h \<and> \<not> checkdev h"
  from probe_loop_rejected [where checkdev = checkdev, OF assms, of n h rest ret tmp st] a
  show "probe_video_loop w checkdev (n # rest) ret tmp st =
          probe_video_loop w checkdev rest (AVERROR EINVAL) h st"
    by simp
next
  assume "sys_open w path = Inr d \<and> vidioc_querycap w path = Inl e"
  then show "v4l2_device_open_video w path cap st = (AVERROR e, zero_capability, st)"
    by (simp add: open_video_eq)
qed

theorem probe_video_keeps_only_accepted_descriptor_witness:
  "snd (snd (ff_v4l2_device_probe_video dev_tree no_video wants_m2m stdio)) =
     stdio\<lparr>fdtab := (3, ''/dev/video1'') # fdtab stdio\<rparr> \<and>
   probe_video_loop dev_tree wants_m2m [''video0'', ''videoX''] (AVERROR EINVAL) no_video stdio =
     probe_video_loop dev_tree wants_m2m [''videoX''] (AVERROR EINVAL)
       \<lparr>video_devname = ''/dev/video0'', video_fd = 3, video_capability = uvc_capability\<rparr> stdio \<and>
   v4l2_device_open_video dev_tree ''/dev/video2'' uvc_capability stdio =
     (AVERROR 25, zero_capability, stdio)"
proof -
  let ?h = "\<lparr>video_devname = ''/dev/video0'', video_fd = 3, video_capability = uvc_capability\<rparr>"
  have video: "take 5 ''video0'' = ''video''" by simp
  have h: "video_open_result dev_tree ''video0'' = Inr ?h"
    by (simp add: run_defs dev_tree_def)
  have no: "\<not> wants_m2m ?h"
    by (simp add: wants_m2m_def uvc_capability_def)
  have opened: "sys_open dev_tree ''/dev/video2'' = Inr 3"
    and query: "vidioc_querycap dev_tree ''/dev/video2'' = Inl 25"
    by (simp_all add: dev_tree_def)
  from probe_video_keeps_only_accepted_descriptor
         [where checkdev = wants_m2m, OF dev_tree_posix,
          of no_video stdio 0 rkvdec_video probed "''video0''" ?h stdio "[''videoX'']"
             "AVERROR EINVAL" no_video "''/dev/video2''" 3 25 uvc_capability]
       dev_tree_probe_m2m video h no opened query
  show ?thesis by (simp add: probed_def rkvdec_video_def)
qed

section \<open>Retrieving: the controller that lists the video device\<close>

text \<open>
  C1. If \<open>ff_v4l2_device_retrieve_media\<close> returns 0, then \<^verbatim>\<open>fstat\<close> on the input video
  device succeeded, and the topology of the controller whose path is in the returned
  handle holds an interface record of type \<^verbatim>\<open>MEDIA_INTF_T_V4L_VIDEO\<close> whose device node
  numbers are the major and minor number of the video device's \<^verbatim>\<open>st_rdev\<close>. A handle
  whose topology has no such record is never returned.
\<close>

theorem retrieve_media_matches_identity:
  assumes "posix_world w"
    and "ff_v4l2_device_retrieve_media w video_device media_device st = (0, media_device', st')"
  shows "\<exists>statbuf ifs.
           os_fstat w (video_fd video_device) st = Inr statbuf \<and>
           media_ioc_g_topology_fill w (media_devname media_device') = Inr ifs \<and>
           (\<exists>i\<in>set ifs. intf_type i = MEDIA_INTF_T_V4L_VIDEO \<and>
              devnode_major i = major (st_rdev statbuf) \<and>
              devnode_minor i = minor (st_rdev statbuf))"
proof -
  from retrieve_success [OF assms]
  obtain statbuf n where stat: "os_fstat w (video_fd video_device) st = Inr statbuf"
    and acc: "media_accepted w (major (st_rdev statbuf)) (minor (st_rdev statbuf)) n"
    and h: "media_open_result w n = Inr media_device'"
    by blast
  from acc h
  have "media_check_result w (media_devname media_device') (major (st_rdev statbuf))
          (minor (st_rdev statbuf)) = 0"
    by (simp add: media_accepted_def)
  from media_check_result_zero [OF assms(1) this] stat show ?thesis by blast
qed

theorem retrieve_media_matches_identity_witness:
  "\<exists>ifs. media_ioc_g_topology_fill dev_tree ''/dev/media1'' = Inr ifs \<and>
      (\<exists>i\<in>set ifs. intf_type i = MEDIA_INTF_T_V4L_VIDEO \<and>
         devnode_major i = 81 \<and> devnode_minor i = 1)"
proof -
  have stat: "os_fstat dev_tree (video_fd rkvdec_video) probed =
      Inr \<lparr>st_dev = 5, st_rdev = 0x5101\<rparr>"
    by (simp add: run_defs tree_defs)
  have ident: "major (0x5101 :: u64) = 81" "minor (0x5101 :: u64) = 1"
    by (simp_all add: major_def minor_def)
  from retrieve_media_matches_identity [OF dev_tree_posix dev_tree_retrieve] stat ident
  show ?thesis by (simp add: rkvdec_media_def)
qed

section \<open>Retrieving: a controller without interfaces\<close>

text \<open>
  C6. Whenever \<open>ff_v4l2_device_retrieve_media\<close> returns 0, the size probe of the
  controller in the returned handle reported a positive number of interfaces, so a
  controller that reports none is never the result. For a controller entry that opens
  and whose size probe reports a count \<open>c \<le> 0\<close>, \<open>v4l2_device_check_media\<close> answers
  \<^verbatim>\<open>AVERROR(EINVAL)\<close> and the loop goes on with the remaining entries.
\<close>

theorem retrieve_media_rejects_empty_topology:
  assumes "posix_world w"
  shows "(ff_v4l2_device_retrieve_media w video_device media_device st0 = (0, media_device', st') \<longrightarrow>
            (\<exists>c. media_ioc_g_topology_count w (media_devname media_device') = Inr c \<and> 0 < c)) \<and>
         (take 5 n = ''media'' \<and> media_open_result w n = Inr h \<and>
          media_ioc_g_topology_count w (media_devname h) = Inr c \<and> c \<le> 0 \<longrightarrow>
            v4l2_device_check_media w (media_fd h) vmaj vmin
              (st\<lparr>fdtab := (media_fd h, media_devname h) # fdtab st\<rparr>) = AVERROR EINVAL \<and>
            (\<exists>st1. retrieve_media_loop w vmaj vmin (n # rest) ret dn d info st =
               retrieve_media_loop w vmaj vmin rest (AVERROR EINVAL)
                 (media_devname h) (media_fd h) (media_info h) st1))"
proof (intro conjI impI)
  assume run: "ff_v4l2_device_retrieve_media w video_device media_device st0 =
    (0, media_device', st')"
  from retrieve_success [OF assms run]
  obtain statbuf :: stat and n where
    acc: "media_accepted w (major (st_rdev statbuf)) (minor (st_rdev statbuf)) n"
    and h: "media_open_result w n = Inr media_device'"
    by auto
  from acc h
  have "media_check_result w (media_devname media_device') (major (st_rdev statbuf))
          (minor (st_rdev statbuf)) = 0"
    by (simp add: media_accepted_def)
  from media_check_result_zero [OF assms this]
  show "\<exists>c. media_ioc_g_topology_count w (media_devname media_device') = Inr c \<and> 0 < c"
    by blast
next
  assume a: "take 5 n = ''media'' \<and> media_open_result w n = Inr h \<and>
    media_ioc_g_topology_count w (media_devname h) = Inr c \<and> c \<le> 0"
  then have res: "media_check_result w (media_devname h) vmaj vmin = AVERROR EINVAL"
    by (simp add: media_check_result_eq)
  then show "v4l2_device_check_media w (media_fd h) vmaj vmin
      (st\<lparr>fdtab := (media_fd h, media_devname h) # fdtab st\<rparr>) = AVERROR EINVAL"
    by (simp add: check_media_opened)
  from res have "media_check_result w (media_devname h) vmaj vmin \<noteq> 0"
    by (simp add: AVERROR_def EINVAL_def)
  from retrieve_loop_rejected [OF assms _ _ this, of n rest ret dn d info st] a res
  show "\<exists>st1. retrieve_media_loop w vmaj vmin (n # rest) ret dn d info st =
      retrieve_media_loop w vmaj vmin rest (AVERROR EINVAL)
        (media_devname h) (media_fd h) (media_info h) st1"
    by auto
qed

theorem retrieve_media_rejects_empty_topology_witness:
  "(\<exists>c. media_ioc_g_topology_count dev_tree (media_devname rkvdec_media) = Inr c \<and> 0 < c) \<and>
   v4l2_device_check_media dev_tree 4 81 1 (probed\<lparr>fdtab := (4, ''/dev/media2'') # fdtab probed\<rparr>) =
     AVERROR EINVAL \<and>
   (\<exists>st1. retrieve_media_loop dev_tree 81 1 [''media2'', ''media0'', ''media1''] (AVERROR 13)
       ''/dev/media3'' 0 zero_info probed =
     retrieve_media_loop dev_tree 81 1 [''media0'', ''media1''] (AVERROR EINVAL)
       ''/dev/media2'' 4 rkvdec_info st1)"
proof -
  let ?h = "\<lparr>media_devname = ''/dev/media2'', media_fd = 4, media_info = rkvdec_info\<rparr>"
  have media: "take 5 ''media2'' = ''media''" by simp
  have h: "media_open_result dev_tree ''media2'' = Inr ?h"
    by (simp add: run_defs dev_tree_def)
  have count: "media_ioc_g_topology_count dev_tree (media_devname ?h) = Inr 0"
    by (simp add: dev_tree_def)
  from retrieve_media_rejects_empty_topology
         [OF dev_tree_posix, of rkvdec_video no_media probed rkvdec_media _ "''media2''" ?h 0
            81 1 probed "[''media0'', ''media1'']" "AVERROR 13" "''/dev/media3''" 0 zero_info]
       dev_tree_retrieve media h count
  show ?thesis by simp
qed

section \<open>Retrieving: an allocation failure\<close>

text \<open>
  C4. The property says that an allocation failure for the interface records ends the
  whole call at once. With allocations of 300 bytes or more failing, the check of
  \<^verbatim>\<open>media0\<close> (three interfaces, 336 bytes) fails with \<^verbatim>\<open>AVERROR(ENOMEM)\<close>, and the call
  still goes on to \<^verbatim>\<open>media1\<close> (two interfaces, 224 bytes) and returns 0 with it.
\<close>

theorem retrieve_media_continues_after_enomem:
  "media_ioc_g_topology_count low_memory_tree ''/dev/media0'' = Inr 3 \<and>
   \<not> av_mallocz_ok low_memory_tree (unat (3 :: u32) * sizeof_media_v2_interface) \<and>
   v4l2_device_check_media low_memory_tree 5 81 1
     (probed\<lparr>fdtab := (5, ''/dev/media0'') # fdtab probed\<rparr>) = AVERROR ENOMEM \<and>
   fst (ff_v4l2_device_retrieve_media low_memory_tree rkvdec_video no_media probed) = 0 \<and>
   fst (snd (ff_v4l2_device_retrieve_media low_memory_tree rkvdec_video no_media probed)) =
     rkvdec_media"
  by (simp add: low_memory_tree_retrieve check_media_opened) (simp add: run_defs tree_defs)

text \<open>
  C4, as the code has it. When the allocation for a controller candidate fails,
  \<open>v4l2_device_check_media\<close> answers \<^verbatim>\<open>AVERROR(ENOMEM)\<close> for that candidate, and the loop
  treats this like every other failed check: it goes on with the remaining entries.
  \<open>ff_v4l2_device_retrieve_media\<close> returns \<^verbatim>\<open>AVERROR(ENOMEM)\<close> when no entry after the
  candidate has the \<^verbatim>\<open>media\<close> prefix (and none before it was accepted), and it returns
  0 with a later controller when that is the first acceptable one.
\<close>

theorem retrieve_media_enomem_is_per_candidate:
  assumes "posix_world w"
    and "take 5 n = ''media''"
    and "media_open_result w n = Inr h"
    and "media_ioc_g_topology_count w (media_devname h) = Inr c"
    and "0 < c"
    and "\<not> av_mallocz_ok w (unat c * sizeof_media_v2_interface)"
  shows "v4l2_device_check_media w (media_fd h) vmaj vmin
           (st\<lparr>fdtab := (media_fd h, media_devname h) # fdtab st\<rparr>) = AVERROR ENOMEM \<and>
         (\<exists>st1. retrieve_media_loop w vmaj vmin (n # rest) ret dn d info st =
            retrieve_media_loop w vmaj vmin rest (AVERROR ENOMEM)
              (media_devname h) (media_fd h) (media_info h) st1) \<and>
         (os_fstat w (video_fd video_device) st0 = Inr statbuf \<and>
          sys_opendir w ''/dev'' = Inr (pre @ n # post) \<and>
          (\<forall>m\<in>set pre.
             \<not> media_accepted w (major (st_rdev statbuf)) (minor (st_rdev statbuf)) m) \<and>
          (\<forall>m\<in>set post. take 5 m \<noteq> ''media'') \<longrightarrow>
            fst (ff_v4l2_device_retrieve_media w video_device media_device st0) =
              AVERROR ENOMEM) \<and>
         (os_fstat w (video_fd video_device) st0 = Inr statbuf \<and>
          sys_opendir w ''/dev'' = Inr (pre @ n # mid @ v # post) \<and>
          (\<forall>m\<in>set (pre @ mid).
             \<not> media_accepted w (major (st_rdev statbuf)) (minor (st_rdev statbuf)) m) \<and>
          media_accepted w (major (st_rdev statbuf)) (minor (st_rdev statbuf)) v \<and>
          media_open_result w v = Inr mh \<longrightarrow>
            fst (ff_v4l2_device_retrieve_media w video_device media_device st0) = 0 \<and>
            fst (snd (ff_v4l2_device_retrieve_media w video_device media_device st0)) = mh)"
proof -
  have res: "media_check_result w (media_devname h) a b = AVERROR ENOMEM" for a b
    using assms(4-6) by (auto simp: media_check_result_eq)
  then have nonzero: "media_check_result w (media_devname h) a b \<noteq> 0" for a b
    by (simp add: AVERROR_def ENOMEM_def)
  have no: "\<not> media_accepted w a b n" for a b
    using assms(3) nonzero by (simp add: media_accepted_def)
  have one: "v4l2_device_check_media w (media_fd h) vmaj vmin
      (st\<lparr>fdtab := (media_fd h, media_devname h) # fdtab st\<rparr>) = AVERROR ENOMEM"
    using res by (simp add: check_media_opened)
  have two: "\<exists>st1. retrieve_media_loop w vmaj vmin (n # rest) ret dn d info st =
      retrieve_media_loop w vmaj vmin rest (AVERROR ENOMEM)
        (media_devname h) (media_fd h) (media_info h) st1"
    using retrieve_loop_rejected [OF assms(1-3) nonzero, of vmaj vmin rest ret dn d info st] res
    by auto
  have three: "fst (ff_v4l2_device_retrieve_media w video_device media_device st0) = AVERROR ENOMEM"
    if a: "os_fstat w (video_fd video_device) st0 = Inr statbuf \<and>
      sys_opendir w ''/dev'' = Inr (pre @ n # post) \<and>
      (\<forall>m\<in>set pre. \<not> media_accepted w (major (st_rdev statbuf)) (minor (st_rdev statbuf)) m) \<and>
      (\<forall>m\<in>set post. take 5 m \<noteq> ''media'')"
  proof -
    from a have stat: "os_fstat w (video_fd video_device) st0 = Inr statbuf"
      and dir: "sys_opendir w ''/dev'' = Inr (pre @ n # post)"
      and pre: "\<forall>m\<in>set pre.
        \<not> media_accepted w (major (st_rdev statbuf)) (minor (st_rdev statbuf)) m"
      and post: "\<forall>m\<in>set post. take 5 m \<noteq> ''media''"
      by simp_all
    from retrieve_last_rejected [OF assms(1) stat dir pre assms(2,3) res _ post, of media_device]
    show ?thesis by (auto simp: AVERROR_def ENOMEM_def)
  qed
  have four: "fst (ff_v4l2_device_retrieve_media w video_device media_device st0) = 0 \<and>
      fst (snd (ff_v4l2_device_retrieve_media w video_device media_device st0)) = mh"
    if a: "os_fstat w (video_fd video_device) st0 = Inr statbuf \<and>
      sys_opendir w ''/dev'' = Inr (pre @ n # mid @ v # post) \<and>
      (\<forall>m\<in>set (pre @ mid).
         \<not> media_accepted w (major (st_rdev statbuf)) (minor (st_rdev statbuf)) m) \<and>
      media_accepted w (major (st_rdev statbuf)) (minor (st_rdev statbuf)) v \<and>
      media_open_result w v = Inr mh"
  proof -
    from a have stat: "os_fstat w (video_fd video_device) st0 = Inr statbuf"
      and dir: "sys_opendir w ''/dev'' = Inr ((pre @ n # mid) @ v # post)"
      and mh: "media_open_result w v = Inr mh"
      by simp_all
    from a no have before: "\<forall>m\<in>set (pre @ n # mid).
        \<not> media_accepted w (major (st_rdev statbuf)) (minor (st_rdev statbuf)) m"
      by auto
    from a have v: "take 5 v = ''media''"
      and ok: "media_check_result w (media_devname mh) (major (st_rdev statbuf))
               (minor (st_rdev statbuf)) = 0"
      by (auto simp: media_accepted_def)
    from retrieve_first_accepted [OF assms(1) stat dir before v mh ok, of media_device]
    show ?thesis by auto
  qed
  from one two three four show ?thesis by blast
qed

theorem retrieve_media_enomem_is_per_candidate_witness:
  "(\<exists>st1. retrieve_media_loop low_memory_tree 81 1 [''media0'', ''media1''] (AVERROR EINVAL)
       ''/dev/media2'' 4 rkvdec_info probed =
     retrieve_media_loop low_memory_tree 81 1 [''media1''] (AVERROR ENOMEM)
       ''/dev/media0'' 5 uvc_info st1) \<and>
   fst (ff_v4l2_device_retrieve_media low_memory_tree rkvdec_video no_media probed) = 0 \<and>
   fst (snd (ff_v4l2_device_retrieve_media low_memory_tree rkvdec_video no_media probed)) =
     rkvdec_media \<and>
   fst (ff_v4l2_device_retrieve_media no_memory_tree rkvdec_video no_media probed) =
     AVERROR ENOMEM"
proof -
  let ?stat = "\<lparr>st_dev = 5, st_rdev = 0x5101\<rparr> :: stat"
  let ?media0 = "\<lparr>media_devname = ''/dev/media0'', media_fd = 5, media_info = uvc_info\<rparr>"
  have ident: "major (st_rdev ?stat) = 81" "minor (st_rdev ?stat) = 1"
    by (simp_all add: major_def minor_def)
  have media: "take 5 ''media0'' = ''media''" "take 5 ''media1'' = ''media''" by simp_all
  have low_h: "media_open_result low_memory_tree ''media0'' = Inr ?media0"
    and low_count: "media_ioc_g_topology_count low_memory_tree (media_devname ?media0) = Inr 3"
    and low_alloc: "\<not> av_mallocz_ok low_memory_tree (unat (3 :: u32) * sizeof_media_v2_interface)"
    and low_stat: "os_fstat low_memory_tree (video_fd rkvdec_video) probed = Inr ?stat"
    and low_dir: "sys_opendir low_memory_tree ''/dev'' =
      Inr ([''null'', ''video0'', ''videoX'', ''video1'', ''video2'', ''media3'', ''media2''] @
           ''media0'' # [] @ ''media1'' # [])"
    and low_pre: "\<forall>m\<in>set ([''null'', ''video0'', ''videoX'', ''video1'', ''video2'', ''media3'',
        ''media2''] @ []). \<not> media_accepted low_memory_tree 81 1 m"
    and low_v: "media_accepted low_memory_tree 81 1 ''media1''"
      "media_open_result low_memory_tree ''media1'' = Inr rkvdec_media"
    by (simp_all add: run_defs tree_defs)
  have no_h: "media_open_result no_memory_tree ''media1'' = Inr rkvdec_media"
    and no_count: "media_ioc_g_topology_count no_memory_tree (media_devname rkvdec_media) = Inr 2"
    and no_alloc: "\<not> av_mallocz_ok no_memory_tree (unat (2 :: u32) * sizeof_media_v2_interface)"
    and no_stat: "os_fstat no_memory_tree (video_fd rkvdec_video) probed = Inr ?stat"
    and no_dir: "sys_opendir no_memory_tree ''/dev'' =
      Inr ([''null'', ''video0'', ''videoX'', ''video1'', ''video2'', ''media3'', ''media2'',
            ''media0''] @ ''media1'' # [])"
    and no_pre: "\<forall>m\<in>set [''null'', ''video0'', ''videoX'', ''video1'', ''video2'', ''media3'',
        ''media2'', ''media0'']. \<not> media_accepted no_memory_tree 81 1 m"
    by (simp_all add: run_defs tree_defs)
  have pos: "(0 :: u32) < 3" "(0 :: u32) < 2" by simp_all
  note low = retrieve_media_enomem_is_per_candidate
    [OF low_memory_tree_posix media(1) low_h low_count pos(1) low_alloc,
     where vmaj = 81 and vmin = 1 and st = probed and rest = "[''media1'']"
       and ret = "AVERROR EINVAL" and dn = "''/dev/media2''" and d = 4 and info = rkvdec_info
       and video_device = rkvdec_video and ?st0.0 = probed and statbuf = ?stat
       and pre = "[''null'', ''video0'', ''videoX'', ''video1'', ''video2'', ''media3'', ''media2'']"
       and mid = "[]" and v = "''media1''" and post = "[]" and mh = rkvdec_media
       and media_device = no_media]
  note none = retrieve_media_enomem_is_per_candidate
    [OF no_memory_tree_posix media(2) no_h no_count pos(2) no_alloc,
     where video_device = rkvdec_video and ?st0.0 = probed and statbuf = ?stat
       and pre = "[''null'', ''video0'', ''videoX'', ''video1'', ''video2'', ''media3'', ''media2'',
         ''media0'']"
       and post = "[]" and media_device = no_media]
  from low low_stat low_dir low_pre low_v ident
  have "(\<exists>st1. retrieve_media_loop low_memory_tree 81 1 [''media0'', ''media1''] (AVERROR EINVAL)
       ''/dev/media2'' 4 rkvdec_info probed =
     retrieve_media_loop low_memory_tree 81 1 [''media1''] (AVERROR ENOMEM)
       ''/dev/media0'' 5 uvc_info st1) \<and>
   fst (ff_v4l2_device_retrieve_media low_memory_tree rkvdec_video no_media probed) = 0 \<and>
   fst (snd (ff_v4l2_device_retrieve_media low_memory_tree rkvdec_video no_media probed)) =
     rkvdec_media"
    by simp
  moreover from none no_stat no_dir no_pre ident
  have "fst (ff_v4l2_device_retrieve_media no_memory_tree rkvdec_video no_media probed) =
     AVERROR ENOMEM"
    by simp
  ultimately show ?thesis by blast
qed

section \<open>Retrieving: descriptors of rejected controllers\<close>

text \<open>
  C3. The property asks that every controller descriptor opened during the enumeration
  is closed again unless it is the accepted one. The loop calls \<^verbatim>\<open>close(ret)\<close> with the
  negative result of \<open>v4l2_device_check_media\<close>, not \<^verbatim>\<open>close(fd)\<close>, so the descriptor of
  a rejected controller stays open. On the device tree the call returns \<^verbatim>\<open>media1\<close> on
  descriptor 6, and the descriptors 5 (\<^verbatim>\<open>media0\<close>, no matching interface) and 4
  (\<^verbatim>\<open>media2\<close>, no interface at all) are still in the table when it returns.
\<close>

theorem retrieve_media_keeps_rejected_descriptors:
  "ff_v4l2_device_retrieve_media dev_tree rkvdec_video no_media probed =
     (0, rkvdec_media,
      \<lparr>fdtab = [(6, ''/dev/media1''), (5, ''/dev/media0''), (4, ''/dev/media2''),
                (3, ''/dev/video1''), (0, ''/dev/tty''), (1, ''/dev/tty''), (2, ''/dev/tty'')],
       dirs = 0\<rparr>) \<and>
   media_check_result dev_tree ''/dev/media0'' 81 1 = AVERROR EINVAL \<and>
   os_close (AVERROR EINVAL) (probed\<lparr>fdtab := (5, ''/dev/media0'') # fdtab probed\<rparr>) =
     probed\<lparr>fdtab := (5, ''/dev/media0'') # fdtab probed\<rparr>"
  by (simp add: dev_tree_retrieve) (simp add: run_defs tree_defs)

section \<open>A candidate that cannot be opened or queried\<close>

lemma video_failed_not_accepted:
  "video_open_result w m = Inl e \<Longrightarrow> \<not> video_accepted w checkdev m"
  by (simp add: video_accepted_def)

lemma media_failed_not_accepted:
  "media_open_result w m = Inl e \<Longrightarrow> \<not> media_accepted w vmaj vmin m"
  by (simp add: media_accepted_def)

text \<open>
  C8. In both loops an entry with the right prefix whose \<^verbatim>\<open>open\<close> or whose capability or
  information query fails is passed over: the loop goes on with the remaining entries, in
  the process state it had before the entry, with \<^verbatim>\<open>ret\<close> set to the negated \<^verbatim>\<open>errno\<close>.
  Such failures do not end the call: when every entry listed before a candidate fails in
  this way and the candidate is acceptable, \<open>ff_v4l2_device_probe_video\<close> and
  \<open>ff_v4l2_device_retrieve_media\<close> return 0 with that candidate.
\<close>

theorem candidate_failure_is_soft:
  assumes "posix_world w"
  shows "(take 5 n = ''video'' \<and> video_open_result w n = Inl e \<longrightarrow>
            (\<exists>tmp'. probe_video_loop w checkdev (n # rest) ret tmp st =
               probe_video_loop w checkdev rest (AVERROR e) tmp' st)) \<and>
         (take 5 n = ''media'' \<and> media_open_result w n = Inl e \<longrightarrow>
            (\<exists>info'. retrieve_media_loop w vmaj vmin (n # rest) ret dn d info st =
               retrieve_media_loop w vmaj vmin rest (AVERROR e) (snprintf_dev n) d info' st)) \<and>
         (sys_opendir w ''/dev'' = Inr (pre @ v # post) \<and>
          (\<forall>m\<in>set pre. \<exists>e. video_open_result w m = Inl e) \<and>
          take 5 v = ''video'' \<and> video_open_result w v = Inr h \<and> checkdev h \<longrightarrow>
            ff_v4l2_device_probe_video w device checkdev st =
              (0, h, st\<lparr>fdtab := (video_fd h, video_devname h) # fdtab st\<rparr>)) \<and>
         (os_fstat w (video_fd video_device) st = Inr statbuf \<and>
          sys_opendir w ''/dev'' = Inr (pre @ v # post) \<and>
          (\<forall>m\<in>set pre. \<exists>e. media_open_result w m = Inl e) \<and>
          media_accepted w (major (st_rdev statbuf)) (minor (st_rdev statbuf)) v \<and>
          media_open_result w v = Inr mh \<longrightarrow>
            fst (ff_v4l2_device_retrieve_media w video_device media_device st) = 0 \<and>
            fst (snd (ff_v4l2_device_retrieve_media w video_device media_device st)) = mh)"
proof (intro conjI impI)
  assume "take 5 n = ''video'' \<and> video_open_result w n = Inl e"
  then show "\<exists>tmp'. probe_video_loop w checkdev (n # rest) ret tmp st =
      probe_video_loop w checkdev rest (AVERROR e) tmp' st"
    using probe_loop_failed [OF assms, of n e checkdev rest ret tmp st] by simp
next
  assume "take 5 n = ''media'' \<and> media_open_result w n = Inl e"
  then show "\<exists>info'. retrieve_media_loop w vmaj vmin (n # rest) ret dn d info st =
      retrieve_media_loop w vmaj vmin rest (AVERROR e) (snprintf_dev n) d info' st"
    using retrieve_loop_failed [OF assms, of n e vmaj vmin rest ret dn d info st] by simp
next
  assume a: "sys_opendir w ''/dev'' = Inr (pre @ v # post) \<and>
    (\<forall>m\<in>set pre. \<exists>e. video_open_result w m = Inl e) \<and>
    take 5 v = ''video'' \<and> video_open_result w v = Inr h \<and> checkdev h"
  then have pre: "\<forall>m\<in>set pre. \<not> video_accepted w checkdev m"
    using video_failed_not_accepted by blast
  from a probe_first_accepted [where checkdev = checkdev, OF assms _ pre, of v post h device st]
  show "ff_v4l2_device_probe_video w device checkdev st =
      (0, h, st\<lparr>fdtab := (video_fd h, video_devname h) # fdtab st\<rparr>)"
    by simp
next
  assume a: "os_fstat w (video_fd video_device) st = Inr statbuf \<and>
    sys_opendir w ''/dev'' = Inr (pre @ v # post) \<and>
    (\<forall>m\<in>set pre. \<exists>e. media_open_result w m = Inl e) \<and>
    media_accepted w (major (st_rdev statbuf)) (minor (st_rdev statbuf)) v \<and>
    media_open_result w v = Inr mh"
  then have pre: "\<forall>m\<in>set pre.
      \<not> media_accepted w (major (st_rdev statbuf)) (minor (st_rdev statbuf)) m"
    using media_failed_not_accepted by blast
  from a have v: "take 5 v = ''media''"
    and ok: "media_check_result w (media_devname mh) (major (st_rdev statbuf))
               (minor (st_rdev statbuf)) = 0"
    by (auto simp: media_accepted_def)
  from a retrieve_first_accepted [OF assms _ _ pre v _ ok, of video_device st post media_device]
  obtain st' where
    run: "ff_v4l2_device_retrieve_media w video_device media_device st = (0, mh, st')"
    by auto
  then show "fst (ff_v4l2_device_retrieve_media w video_device media_device st) = 0" by simp
  from run show "fst (snd (ff_v4l2_device_retrieve_media w video_device media_device st)) = mh"
    by simp
qed

theorem candidate_failure_is_soft_witness:
  "(\<exists>tmp'. probe_video_loop dev_tree wants_m2m [''videoX'', ''video1''] (AVERROR EINVAL) no_video
       stdio =
     probe_video_loop dev_tree wants_m2m [''video1''] (AVERROR 13) tmp' stdio) \<and>
   (\<exists>info'. retrieve_media_loop dev_tree 81 1 [''media3'', ''media1''] (AVERROR EINVAL) [] 0
       zero_info probed =
     retrieve_media_loop dev_tree 81 1 [''media1''] (AVERROR 13) ''/dev/media3'' 0 info' probed) \<and>
   ff_v4l2_device_probe_video sparse_tree no_video wants_m2m stdio = (0, rkvdec_video, probed) \<and>
   fst (ff_v4l2_device_retrieve_media sparse_tree rkvdec_video no_media probed) = 0 \<and>
   fst (snd (ff_v4l2_device_retrieve_media sparse_tree rkvdec_video no_media probed)) =
     rkvdec_media"
proof -
  have videoX: "take 5 ''videoX'' = ''video''" "video_open_result dev_tree ''videoX'' = Inl 13"
    by (simp_all add: run_defs dev_tree_def)
  have media3: "take 5 ''media3'' = ''media''" "media_open_result dev_tree ''media3'' = Inl 13"
    by (simp_all add: run_defs dev_tree_def)
  have stat: "os_fstat sparse_tree (video_fd rkvdec_video) probed =
      Inr \<lparr>st_dev = 5, st_rdev = 0x5101\<rparr>"
    by (simp add: run_defs tree_defs)
  have dir1: "sys_opendir sparse_tree ''/dev'' =
      Inr ([''videoX''] @ ''video1'' # [''media3'', ''media1''])"
    and dir2: "sys_opendir sparse_tree ''/dev'' =
      Inr ([''videoX'', ''video1'', ''media3''] @ ''media1'' # [])"
    by (simp_all add: tree_defs)
  have pre1: "\<forall>m\<in>set [''videoX'']. \<exists>e. video_open_result sparse_tree m = Inl e"
    and pre2: "\<forall>m\<in>set [''videoX'', ''video1'', ''media3''].
      \<exists>e. media_open_result sparse_tree m = Inl e"
    by (simp_all add: run_defs tree_defs)
  have video1: "take 5 ''video1'' = ''video''"
    "video_open_result sparse_tree ''video1'' = Inr rkvdec_video" "wants_m2m rkvdec_video"
    by (simp_all add: run_defs tree_defs)
  have media1: "media_accepted sparse_tree (major (st_rdev \<lparr>st_dev = 5, st_rdev = 0x5101\<rparr>))
      (minor (st_rdev \<lparr>st_dev = 5, st_rdev = 0x5101\<rparr>)) ''media1''"
    "media_open_result sparse_tree ''media1'' = Inr rkvdec_media"
    by (simp_all add: run_defs tree_defs)
  note soft = candidate_failure_is_soft [where checkdev = wants_m2m]
  from soft [OF dev_tree_posix, of "''videoX''" 13 "[''video1'']" "AVERROR EINVAL" no_video stdio]
    videoX
  have one: "\<exists>tmp'. probe_video_loop dev_tree wants_m2m [''videoX'', ''video1''] (AVERROR EINVAL)
      no_video stdio = probe_video_loop dev_tree wants_m2m [''video1''] (AVERROR 13) tmp' stdio"
    by simp
  from soft [OF dev_tree_posix, of "''media3''" 13 "[''media1'']" "AVERROR EINVAL" _ probed
      81 1 "[]" 0 zero_info] media3
  have two: "\<exists>info'. retrieve_media_loop dev_tree 81 1 [''media3'', ''media1''] (AVERROR EINVAL)
      [] 0 zero_info probed =
    retrieve_media_loop dev_tree 81 1 [''media1''] (AVERROR 13) ''/dev/media3'' 0 info' probed"
    by (simp add: snprintf_dev_short)
  from soft [OF sparse_tree_posix, of _ _ _ _ _ stdio _ _ _ _ _ "[''videoX'']" "''video1''"
      "[''media3'', ''media1'']" rkvdec_video no_video] dir1 pre1 video1
  have three: "ff_v4l2_device_probe_video sparse_tree no_video wants_m2m stdio =
      (0, rkvdec_video, probed)"
    by (simp add: probed_def rkvdec_video_def)
  from soft [OF sparse_tree_posix, of _ _ _ _ _ probed _ _ _ _ _
      "[''videoX'', ''video1'', ''media3'']" "''media1''" "[]" _ _ rkvdec_video
      "\<lparr>st_dev = 5, st_rdev = 0x5101\<rparr>" rkvdec_media no_media] stat dir2 pre2 media1
  have four: "fst (ff_v4l2_device_retrieve_media sparse_tree rkvdec_video no_media probed) = 0 \<and>
      fst (snd (ff_v4l2_device_retrieve_media sparse_tree rkvdec_video no_media probed)) =
        rkvdec_media"
    by simp
  from one two three four show ?thesis by blast
qed

section \<open>Failures that end the call at once\<close>

text \<open>
  C9. When \<^verbatim>\<open>fstat\<close> on the descriptor of the input video device fails,
  \<open>ff_v4l2_device_retrieve_media\<close> returns the negated \<^verbatim>\<open>errno\<close> of that call; the
  process state is the one it started in, so no directory was opened and no candidate
  was opened. When \<^verbatim>\<open>opendir\<close> fails, \<open>ff_v4l2_device_retrieve_media\<close> and
  \<open>ff_v4l2_device_probe_video\<close> return the negated \<^verbatim>\<open>errno\<close> of \<^verbatim>\<open>opendir\<close>, again
  in the unchanged state. In each case the code returned is negative and the caller's
  output structure is as it was.
\<close>

theorem fatal_failures_return_immediately:
  assumes "posix_world w"
  shows "(os_fstat w (video_fd video_device) st = Inl e \<longrightarrow>
            ff_v4l2_device_retrieve_media w video_device media_device st =
              (AVERROR e, media_device, st) \<and> AVERROR e < 0) \<and>
         (os_fstat w (video_fd video_device) st = Inr statbuf \<and> sys_opendir w ''/dev'' = Inl e \<longrightarrow>
            ff_v4l2_device_retrieve_media w video_device media_device st =
              (AVERROR e, media_device, st) \<and> AVERROR e < 0) \<and>
         (sys_opendir w ''/dev'' = Inl e \<longrightarrow>
            ff_v4l2_device_probe_video w device checkdev st = (AVERROR e, device, st) \<and>
            AVERROR e < 0)"
proof (intro conjI impI)
  assume "os_fstat w (video_fd video_device) st = Inl e"
  then show "ff_v4l2_device_retrieve_media w video_device media_device st =
      (AVERROR e, media_device, st)"
    by (simp add: ff_v4l2_device_retrieve_media_def)
next
  assume "os_fstat w (video_fd video_device) st = Inl e"
  with assms show "AVERROR e < 0" by (rule posix_os_fstat_errno)
next
  assume "os_fstat w (video_fd video_device) st = Inr statbuf \<and> sys_opendir w ''/dev'' = Inl e"
  then show "ff_v4l2_device_retrieve_media w video_device media_device st =
      (AVERROR e, media_device, st)"
    by (simp add: ff_v4l2_device_retrieve_media_def os_opendir_def)
next
  assume "os_fstat w (video_fd video_device) st = Inr statbuf \<and> sys_opendir w ''/dev'' = Inl e"
  then have "sys_opendir w ''/dev'' = Inl e" by simp
  with assms show "AVERROR e < 0" by (rule posix_opendir_errno)
next
  assume "sys_opendir w ''/dev'' = Inl e"
  then show "ff_v4l2_device_probe_video w device checkdev st = (AVERROR e, device, st)"
    by (simp add: ff_v4l2_device_probe_video_def os_opendir_def)
next
  assume "sys_opendir w ''/dev'' = Inl e"
  with assms show "AVERROR e < 0" by (rule posix_opendir_errno)
qed

theorem fatal_failures_return_immediately_witness:
  "ff_v4l2_device_retrieve_media dev_tree no_video no_media stdio = (- 9, no_media, stdio) \<and>
   ff_v4l2_device_retrieve_media locked_tree rkvdec_video no_media probed =
     (- 13, no_media, probed) \<and>
   ff_v4l2_device_probe_video locked_tree no_video wants_m2m stdio = (- 13, no_video, stdio)"
proof -
  have stat_fails: "os_fstat dev_tree (video_fd no_video) stdio = Inl 9"
    by (simp add: run_defs tree_defs)
  have stat_ok: "os_fstat locked_tree (video_fd rkvdec_video) probed =
      Inr \<lparr>st_dev = 5, st_rdev = 0x5101\<rparr>"
    by (simp add: run_defs tree_defs)
  have dir_fails: "sys_opendir locked_tree ''/dev'' = Inl 13"
    by (simp add: tree_defs)
  from fatal_failures_return_immediately
         [OF dev_tree_posix, of no_video stdio 9 no_media _ no_video wants_m2m]
       fatal_failures_return_immediately
         [OF locked_tree_posix, of rkvdec_video probed 13 no_media
            "\<lparr>st_dev = 5, st_rdev = 0x5101\<rparr>" no_video wants_m2m]
       fatal_failures_return_immediately
         [OF locked_tree_posix, of no_video stdio 13 no_media _ no_video wants_m2m]
       stat_fails stat_ok dir_fails
  show ?thesis by (simp add: AVERROR_def)
qed

section \<open>The output structure\<close>

text \<open>
  C10. A call of \<open>ff_v4l2_device_probe_video\<close> or \<open>ff_v4l2_device_retrieve_media\<close> that
  returns a negative code leaves the caller's output structure as it was; the structure
  is different after the call only when the call returned 0.
\<close>

theorem output_written_only_on_success:
  "(ff_v4l2_device_probe_video w device checkdev st = (ret, device', st') \<longrightarrow>
      (ret < 0 \<longrightarrow> device' = device) \<and> (device' \<noteq> device \<longrightarrow> ret = 0)) \<and>
   (ff_v4l2_device_retrieve_media w video_device media_device st = (ret, media_device', st') \<longrightarrow>
      (ret < 0 \<longrightarrow> media_device' = media_device) \<and> (media_device' \<noteq> media_device \<longrightarrow> ret = 0))"
  by (auto simp: ff_v4l2_device_probe_video_def ff_v4l2_device_retrieve_media_def Let_def
           split: prod.splits sum.splits if_splits)

theorem output_written_only_on_success_witness:
  "fst (ff_v4l2_device_probe_video dev_tree no_video refuse_all stdio) < 0 \<and>
   fst (snd (ff_v4l2_device_probe_video dev_tree no_video refuse_all stdio)) = no_video \<and>
   fst (ff_v4l2_device_retrieve_media no_memory_tree rkvdec_video no_media probed) < 0 \<and>
   fst (snd (ff_v4l2_device_retrieve_media no_memory_tree rkvdec_video no_media probed)) = no_media"
proof -
  obtain r1 d1 s1 where
    run1: "ff_v4l2_device_probe_video dev_tree no_video refuse_all stdio = (r1, d1, s1)"
    by (metis prod_cases3)
  obtain r2 d2 s2 where
    run2: "ff_v4l2_device_retrieve_media no_memory_tree rkvdec_video no_media probed = (r2, d2, s2)"
    by (metis prod_cases3)
  have neg1: "r1 < 0" using run1 by (simp add: dev_tree_probe_refused)
  have neg2: "r2 < 0" using run2 by (simp add: run_defs tree_defs)
  from output_written_only_on_success [of dev_tree no_video refuse_all stdio r1 d1 s1]
       output_written_only_on_success
         [of no_memory_tree _ _ probed r2 _ s2 rkvdec_video no_media d2]
       run1 run2 neg1 neg2
  show ?thesis by simp
qed

end
